theory Spec2Isabelle
  imports Main
begin

section \<open>Python strings\<close>

text \<open>
  A Python \<open>str\<close> is a sequence of Unicode code points, so \<open>len\<close>, slicing and
  \<open>in\<close> count code points. The literals of \<open>backend/main.py\<close> are ASCII except for
  the dash U+2014 (code point 8212) in \<open>SYSTEM_PROMPT\<close> and in the crisis reply.
\<close>

type_synonym pystr = "nat list"

definition ascii :: "string \<Rightarrow> pystr" where
  "ascii s = map of_char s"

definition ascii_lower :: "nat \<Rightarrow> nat" where
  "ascii_lower c = (if 65 \<le> c \<and> c \<le> 90 then c + 32 else c)"

text \<open>
  \<open>str.lower()\<close>: the letters A-Z become a-z and every other ASCII code point stays.
  For a code point from 128 on the result comes from the Unicode database of the
  interpreter, which is not part of the repository: it is the parameter \<open>U\<close>, given
  the code points before, the code point itself and the code points after (the result may
  be several code points, and for capital sigma it depends on the context).
\<close>

type_synonym casemap = "pystr \<Rightarrow> nat \<Rightarrow> pystr \<Rightarrow> pystr"

fun lower_from :: "casemap \<Rightarrow> pystr \<Rightarrow> pystr \<Rightarrow> pystr" where
  "lower_from U before [] = []"
| "lower_from U before (c # rest) =
     (if c < 128 then [ascii_lower c] else U before c rest) @ lower_from U (before @ [c]) rest"

definition py_lower :: "casemap \<Rightarrow> pystr \<Rightarrow> pystr" where
  "py_lower U s = lower_from U [] s"

text \<open>\<open>s.startswith(k)\<close> and the substring test \<open>k in s\<close>.\<close>

fun startswith :: "pystr \<Rightarrow> pystr \<Rightarrow> bool" where
  "startswith s [] = True"
| "startswith [] (k # ks) = False"
| "startswith (c # cs) (k # ks) = (c = k \<and> startswith cs ks)"

fun py_in :: "pystr \<Rightarrow> pystr \<Rightarrow> bool" where
  "py_in k [] = (k = [])"
| "py_in k (c # cs) = (startswith (c # cs) k \<or> py_in k cs)"

text \<open>
  \<open>str.strip()\<close> removes leading and trailing code points for which \<open>str.isspace\<close>
  holds: U+0009..U+000D, U+001C..U+0020, U+0085, U+00A0, U+1680, U+2000..U+200A, U+2028,
  U+2029, U+202F, U+205F and U+3000.
\<close>

definition py_isspace :: "nat \<Rightarrow> bool" where
  "py_isspace c =
     ((9 \<le> c \<and> c \<le> 13) \<or> (28 \<le> c \<and> c \<le> 32) \<or> c = 133 \<or> c = 160 \<or> c = 5760
      \<or> (8192 \<le> c \<and> c \<le> 8202) \<or> c = 8232 \<or> c = 8233 \<or> c = 8239 \<or> c = 8287
      \<or> c = 12288)"

definition py_strip :: "pystr \<Rightarrow> pystr" where
  "py_strip s = rev (dropWhile py_isspace (rev (dropWhile py_isspace s)))"

text \<open>\<open>sep.join(parts)\<close>.\<close>

fun py_join :: "pystr \<Rightarrow> pystr list \<Rightarrow> pystr" where
  "py_join sep [] = []"
| "py_join sep [p] = p"
| "py_join sep (p # q # ps) = p @ sep @ py_join sep (q # ps)"

section \<open>Data model\<close>

text \<open>
  A history entry is a \<open>dict\<close> decoded from JSON: string keys, any JSON value. The
  handler only formats the values into an f-string, so a value is \<open>None\<close>, a string, or a
  value of another JSON type carried as the text \<open>format\<close> gives for it.
\<close>

datatype jval = JNull | JStr pystr | JOther pystr

fun py_format :: "jval \<Rightarrow> pystr" where
  "py_format JNull = ascii ''None''"
| "py_format (JStr s) = s"
| "py_format (JOther s) = s"

type_synonym pydict = "pystr \<rightharpoonup> jval"

text \<open>\<open>m.get(key, default)\<close>; \<open>m.get(key)\<close> is \<open>dict_get m key JNull\<close>.\<close>

definition dict_get :: "pydict \<Rightarrow> pystr \<Rightarrow> jval \<Rightarrow> jval" where
  "dict_get m key dflt = (case m key of None \<Rightarrow> dflt | Some v \<Rightarrow> v)"

text \<open>\<open>class ChatRequest(BaseModel)\<close>; \<open>None\<close> is Python's \<open>None\<close>.\<close>

record ChatRequest =
  session_id :: "pystr option"
  message :: pystr
  history :: "pydict list option"
  save_opt_in_ciphertext :: "pystr option"

text \<open>\<open>class ChatResponse(BaseModel)\<close> (its \<open>session_id\<close> field is \<open>resp_session_id\<close>).\<close>

record ChatResponse =
  resp_session_id :: pystr
  reply :: pystr
  timestamp :: pystr
  saved :: bool

text \<open>The document written to the store: a \<open>dict\<close> literal, keys in the order written.\<close>

datatype fsval = FStr pystr | FBool bool

type_synonym document = "(pystr \<times> fsval) list"

text \<open>
  The exceptions of the model: the three built-in ones the handler's own expressions can
  raise, \<open>HTTPException\<close> with its status and detail, and any other exception with its
  message (what a service or a property of an object raises).
\<close>

datatype pyexc =
    IndexError
  | TypeError
  | AttributeError
  | ValueError pystr
  | ServiceError pystr
  | HTTPException nat pystr

text \<open>
  The object \<open>client.models.generate_content\<close> returns is whatever the SDK gives, so the
  model keeps every way in which line 102 can go wrong on it. An attribute of an object is
  missing, or raises when read (a property), or has a value. A value that gets indexed
  with \<open>[0]\<close> is \<open>None\<close>, or another object that cannot be subscripted, or a sequence.
\<close>

datatype 'a attr = Missing | Raises pyexc | Has 'a

datatype 'a indexable = IsNone | Unsubscriptable | Items "'a list"

text \<open>\<open>obj.name\<close>: a missing attribute raises \<open>AttributeError\<close>.\<close>

definition attr_get :: "'a attr \<Rightarrow> pyexc + 'a" where
  "attr_get a = (case a of Missing \<Rightarrow> Inl AttributeError | Raises e \<Rightarrow> Inl e | Has v \<Rightarrow> Inr v)"

text \<open>
  \<open>getattr(obj, name, default)\<close> and \<open>hasattr(obj, name)\<close>: both catch
  \<open>AttributeError\<close> only; any other exception of the attribute goes through.
\<close>

definition getattr_default :: "'a attr \<Rightarrow> 'a \<Rightarrow> pyexc + 'a" where
  "getattr_default a dflt =
     (case a of
        Missing \<Rightarrow> Inr dflt
      | Raises e \<Rightarrow> if e = AttributeError then Inr dflt else Inl e
      | Has v \<Rightarrow> Inr v)"

definition hasattr :: "'a attr \<Rightarrow> pyexc + bool" where
  "hasattr a =
     (case a of
        Missing \<Rightarrow> Inr False
      | Raises e \<Rightarrow> if e = AttributeError then Inr False else Inl e
      | Has v \<Rightarrow> Inr True)"

text \<open>
  \<open>v[0]\<close>: \<open>TypeError\<close> on \<open>None\<close> and on an object that is not subscriptable,
  \<open>IndexError\<close> on an empty sequence.
\<close>

definition index0 :: "'a indexable \<Rightarrow> pyexc + 'a" where
  "index0 v =
     (case v of
        IsNone \<Rightarrow> Inl TypeError
      | Unsubscriptable \<Rightarrow> Inl TypeError
      | Items [] \<Rightarrow> Inl IndexError
      | Items (x # _) \<Rightarrow> Inr x)"

text \<open>Evaluation goes on with the value, or stops with the exception raised.\<close>

definition on_value :: "pyexc + 'a \<Rightarrow> ('a \<Rightarrow> pyexc + 'b) \<Rightarrow> pyexc + 'b" where
  "on_value r f = (case r of Inl e \<Rightarrow> Inl e | Inr v \<Rightarrow> f v)"

text \<open>
  The response, as far as the handler looks at it: its attributes \<open>text\<close> (a string or
  \<open>None\<close>) and \<open>candidates\<close>, and \<open>str(response)\<close>; the attribute \<open>content\<close> of a
  candidate; the attribute \<open>text\<close> of a content segment (a string or \<open>None\<close>).
\<close>

record segment =
  segment_text :: "pystr option attr"

record candidate =
  content :: "segment indexable attr"

record gen_response =
  text_attr :: "pystr option attr"
  candidates :: "candidate indexable attr"
  str_of :: pystr

section \<open>Effects and the world outside the handler\<close>

text \<open>
  What the handler does to the outside, in order: a call of the model client (model name,
  contents, max_output_tokens), a \<open>set\<close> on a document of a collection (collection,
  document id, document), a \<open>print\<close> of a caught exception.
\<close>

datatype event =
    ModelCall pystr pystr nat
  | DbSet pystr pystr document
  | Print pystr pyexc

text \<open>
  The module-level configuration (\<open>save_enabled\<close>), the external services as oracles
  (\<open>generate_content\<close> returns a response or raises; \<open>document_set\<close> returns the
  exception a write raises, if any), the clock, the generator behind \<open>uuid.uuid4\<close>
  (a sequence and the number of identifiers drawn so far), the contents of the store and
  the trace of effects.
\<close>

record world =
  save_enabled :: bool
  unicode_lower :: casemap
  utcnow_isoformat :: pystr
  uuid_source :: "nat \<Rightarrow> pystr"
  uuid_count :: nat
  generate_content :: "pystr \<Rightarrow> pystr \<Rightarrow> nat \<Rightarrow> pyexc + gen_response"
  document_set :: "pystr \<Rightarrow> pystr \<Rightarrow> document \<Rightarrow> pyexc option"
  firestore :: "pystr \<times> pystr \<rightharpoonup> document"
  trace :: "event list"

definition emit :: "event \<Rightarrow> world \<Rightarrow> world" where
  "emit e w = w\<lparr>trace := trace w @ [e]\<rparr>"

text \<open>\<open>str(uuid.uuid4())\<close>.\<close>

definition uuid4 :: "world \<Rightarrow> pystr \<times> world" where
  "uuid4 w = (uuid_source w (uuid_count w), w\<lparr>uuid_count := Suc (uuid_count w)\<rparr>)"

section \<open>backend/main.py\<close>

definition RISK_KEYWORDS :: "pystr list" where
  "RISK_KEYWORDS = map ascii
     [''suicide'', ''kill myself'', ''want to die'', ''end my life'',
      ''hurt myself'', ''hurting myself'', ''die by suicide'']"

definition SYSTEM_PROMPT :: pystr where
  "SYSTEM_PROMPT =
     ascii ''You are MoodM8 '' @ [8212] @
     ascii '' a short, empathetic, non-judgmental support assistant for young adults. '' @
     ascii ''Keep replies concise (2-6 sentences), ask one gentle clarifying question, offer a 1-2 simple coping step, '' @
     ascii ''and give safe resources if the user indicates crisis. Do NOT provide medical or legal advice. '' @
     ascii ''If the user expresses intent to self-harm or immediate danger, respond with supportive, urgent-escalation language and provide emergency resource suggestions.''"

text \<open>The reply of lines 63-67.\<close>

definition crisis_reply :: pystr where
  "crisis_reply =
     ascii ''I'm really sorry '' @ [8212] @
     ascii '' it sounds like you're in serious distress. '' @
     ascii ''If you're in India and in immediate danger, please call 112 now or the mental health helpline KIRAN: 1800-599-0019. '' @
     ascii ''If you want, I can connect you with coping steps and nearby support options. You are not alone.''"

definition contains_risk :: "casemap \<Rightarrow> pystr \<Rightarrow> bool" where
  "contains_risk U text =
     (let low = py_lower U text in list_ex (\<lambda>k. py_in k low) RISK_KEYWORDS)"

text \<open>
  Lines 79-83 and 117-120: \<open>db.collection("saved_sessions").document(session_id).set(doc)\<close>
  inside \<open>try\<close>; \<open>saved = True\<close> follows the write, and an exception of the write is
  printed and swallowed.
\<close>

definition save_doc :: "pystr \<Rightarrow> document \<Rightarrow> world \<Rightarrow> bool \<times> world" where
  "save_doc sid doc w =
     (let w1 = emit (DbSet (ascii ''saved_sessions'') sid doc) w
      in case document_set w (ascii ''saved_sessions'') sid doc of
           None \<Rightarrow> (True, w1\<lparr>firestore := (firestore w1)((ascii ''saved_sessions'', sid) \<mapsto> doc)\<rparr>)
         | Some e \<Rightarrow> (False, emit (Print (ascii ''Firestore save failed:'') e) w1))"

text \<open>Lines 87-93: the prompt.\<close>

definition render_entry :: "pydict \<Rightarrow> pystr" where
  "render_entry m =
     py_format (dict_get m (ascii ''role'') (JStr (ascii ''user''))) @ ascii '': '' @
     py_format (dict_get m (ascii ''text'') JNull)"

definition build_prompt :: "ChatRequest \<Rightarrow> pystr" where
  "build_prompt req =
     (let parts = [SYSTEM_PROMPT];
          parts = (case history req of
                     None \<Rightarrow> parts
                   | Some h \<Rightarrow>
                       if h \<noteq> [] then foldl (\<lambda>ps m. ps @ [render_entry m]) parts h else parts);
          parts = parts @ [ascii ''user: '' @ message req]
      in py_join [10, 10] parts)"

text \<open>
  Line 102, evaluated inside the \<open>try\<close>:
  \<open>getattr(response, "text", None) or (response.candidates[0].content[0].text
     if hasattr(response, "candidates") else str(response))\<close>.
  A direct text that is \<open>None\<close> or empty is falsy, so \<open>or\<close> goes on to the right-hand
  side. The result is the value of \<open>reply_text\<close>, a string or \<open>None\<close>, or the exception
  raised on the way.
\<close>

definition extract_reply_text :: "gen_response \<Rightarrow> pyexc + pystr option" where
  "extract_reply_text response =
     on_value (getattr_default (text_attr response) None) (\<lambda>t.
       if (case t of None \<Rightarrow> False | Some s \<Rightarrow> s \<noteq> []) then Inr t
       else
         on_value (hasattr (candidates response)) (\<lambda>has_candidates.
           if has_candidates then
             on_value (attr_get (candidates response)) (\<lambda>cs.
             on_value (index0 cs) (\<lambda>c.
             on_value (attr_get (content c)) (\<lambda>segs.
             on_value (index0 segs) (\<lambda>seg.
             attr_get (segment_text seg)))))
           else Inr (Some (str_of response))))"

text \<open>Lines 73-78: the document of the crisis branch.\<close>

definition crisis_doc :: "pystr \<Rightarrow> pystr \<Rightarrow> pystr \<Rightarrow> document" where
  "crisis_doc sid ciphertext now =
     [(ascii ''session_id'', FStr sid),
      (ascii ''ciphertext'', FStr ciphertext),
      (ascii ''created_at'', FStr now),
      (ascii ''opt_in'', FBool True)]"

text \<open>
  Lines 110-116: the document of the other branch, for a \<open>reply_text\<close> that is a
  string; \<open>reply_text[:200]\<close> is its first 200 code points.
\<close>

definition reply_doc :: "pystr \<Rightarrow> pystr \<Rightarrow> pystr \<Rightarrow> pystr \<Rightarrow> document" where
  "reply_doc sid ciphertext now reply_text =
     [(ascii ''session_id'', FStr sid),
      (ascii ''ciphertext'', FStr ciphertext),
      (ascii ''created_at'', FStr now),
      (ascii ''opt_in'', FBool True),
      (ascii ''snippet'', FStr (take 200 reply_text))]"

text \<open>Line 57: \<open>req.session_id or str(uuid.uuid4())\<close>.\<close>

definition resolve_session_id :: "ChatRequest \<Rightarrow> world \<Rightarrow> pystr \<times> world" where
  "resolve_session_id req w =
     (case session_id req of
        None \<Rightarrow> uuid4 w
      | Some s \<Rightarrow> if s \<noteq> [] then (s, w) else uuid4 w)"

text \<open>Lines 62-84: the body of \<open>if contains_risk(req.message)\<close>.\<close>

definition crisis_branch ::
  "ChatRequest \<Rightarrow> pystr \<Rightarrow> pystr \<Rightarrow> world \<Rightarrow> (pyexc + ChatResponse) \<times> world" where
  "crisis_branch req sid now w1 =
     (let (saved, w2) =
            (case save_opt_in_ciphertext req of
               None \<Rightarrow> (False, w1)
             | Some c \<Rightarrow>
                 if c \<noteq> [] \<and> save_enabled w1 then
                   save_doc sid (crisis_doc sid c now) w1
                 else (False, w1))
      in (Inr \<lparr>resp_session_id = sid, reply = crisis_reply, timestamp = now, saved = saved\<rparr>,
          w2))"

text \<open>
  Lines 86-122: the rest of the handler. The \<open>try\<close> of lines 95-105 holds the call of
  the model and the extraction of \<open>reply_text\<close>; the \<open>try\<close> of lines 109-120 holds the
  slice \<open>reply_text[:200]\<close> and the write; \<open>reply_text.strip()\<close> of line 122 is outside
  both.
\<close>

definition generate_branch ::
  "ChatRequest \<Rightarrow> pystr \<Rightarrow> pystr \<Rightarrow> world \<Rightarrow> (pyexc + ChatResponse) \<times> world" where
  "generate_branch req sid now w1 =
     (let prompt = build_prompt req;
          w2 = emit (ModelCall (ascii ''gemini-2.5-flash'') prompt 400) w1;
          got = (case generate_content w1 (ascii ''gemini-2.5-flash'') prompt 400 of
                   Inl e \<Rightarrow> Inl e
                 | Inr response \<Rightarrow> extract_reply_text response)
      in case got of
           Inl e \<Rightarrow>
             (Inl (HTTPException 500 (ascii ''AI generation failed'')),
              emit (Print (ascii ''GenAI call failed:'') e) w2)
         | Inr reply_text \<Rightarrow>
             (let (saved, w3) =
                    (case save_opt_in_ciphertext req of
                       None \<Rightarrow> (False, w2)
                     | Some c \<Rightarrow>
                         if c \<noteq> [] \<and> save_enabled w2 then
                           (case reply_text of
                              None \<Rightarrow>
                                (False,
                                 emit (Print (ascii ''Firestore save failed:'') TypeError) w2)
                            | Some t \<Rightarrow>
                                save_doc sid (reply_doc sid c now t) w2)
                         else (False, w2))
              in case reply_text of
                   None \<Rightarrow> (Inl AttributeError, w3)
                 | Some t \<Rightarrow>
                     (Inr \<lparr>resp_session_id = sid, reply = py_strip t, timestamp = now,
                           saved = saved\<rparr>, w3)))"

text \<open>
  The handler \<open>chat\<close>. The result is \<open>Inr\<close> the response, or \<open>Inl\<close> the exception that
  leaves the handler.
\<close>

definition chat :: "ChatRequest \<Rightarrow> world \<Rightarrow> (pyexc + ChatResponse) \<times> world" where
  "chat req w0 =
     (let (sid, w1) = resolve_session_id req w0;
          now = utcnow_isoformat w1 @ ascii ''Z''
      in if contains_risk (unicode_lower w1) (message req)
         then crisis_branch req sid now w1
         else generate_branch req sid now w1)"

text \<open>The effects of one call: what it appended to the trace.\<close>

definition emitted :: "ChatRequest \<Rightarrow> world \<Rightarrow> event list" where
  "emitted req w = drop (length (trace w)) (trace (snd (chat req w)))"

fun is_model_call :: "event \<Rightarrow> bool" where
  "is_model_call (ModelCall _ _ _) = True"
| "is_model_call _ = False"

fun is_db_set :: "event \<Rightarrow> bool" where
  "is_db_set (DbSet _ _ _) = True"
| "is_db_set _ = False"

text \<open>
  The hosting runtime serving requests one after the other: the world after a sequence of
  calls of the handler.
\<close>

definition serve_all :: "ChatRequest list \<Rightarrow> world \<Rightarrow> world" where
  "serve_all reqs w = foldl (\<lambda>w' r. snd (chat r w')) w reqs"

section \<open>Concrete requests and worlds\<close>

text \<open>
  A world in which persistence is configured, the model answers with a direct text and
  every write succeeds; code points from 128 on are taken as their own lower case.
\<close>

definition demo_response :: gen_response where
  "demo_response =
     \<lparr>text_attr = Has (Some (ascii '' That sounds tough, want to talk about it? '')),
      candidates = Missing, str_of = ascii ''<response>''\<rparr>"

definition demo_world :: world where
  "demo_world =
     \<lparr>save_enabled = True,
      unicode_lower = (\<lambda>before c rest. [c]),
      utcnow_isoformat = ascii ''2025-01-01T12:00:00'',
      uuid_source = (\<lambda>n. ascii ''uuid-'' @ [48 + n]),
      uuid_count = 0,
      generate_content = (\<lambda>model contents max_output_tokens. Inr demo_response),
      document_set = (\<lambda>collection key doc. None),
      firestore = Map.empty,
      trace = []\<rparr>"

text \<open>The same world with a store that refuses every write.\<close>

definition broken_store_world :: world where
  "broken_store_world =
     demo_world\<lparr>document_set := (\<lambda>collection key doc. Some (ServiceError (ascii ''unavailable'')))\<rparr>"

text \<open>The same world without a persistence project.\<close>

definition no_store_world :: world where
  "no_store_world = demo_world\<lparr>save_enabled := False\<rparr>"

text \<open>A model that returns a response with neither a text nor a candidate.\<close>

definition empty_response :: gen_response where
  "empty_response =
     \<lparr>text_attr = Has None, candidates = Has (Items []), str_of = ascii ''<response>''\<rparr>"

definition empty_candidates_world :: world where
  "empty_candidates_world =
     demo_world\<lparr>generate_content := (\<lambda>model contents max_output_tokens. Inr empty_response)\<rparr>"

text \<open>A model that returns an empty direct text and no \<open>candidates\<close> attribute.\<close>

definition blank_text_response :: gen_response where
  "blank_text_response =
     \<lparr>text_attr = Has (Some []), candidates = Missing, str_of = ascii ''<response>''\<rparr>"

definition blank_text_world :: world where
  "blank_text_world =
     demo_world\<lparr>generate_content := (\<lambda>model contents max_output_tokens. Inr blank_text_response)\<rparr>"

text \<open>A model whose first content segment has \<open>None\<close> as text.\<close>

definition none_segment_response :: gen_response where
  "none_segment_response =
     \<lparr>text_attr = Has None,
      candidates = Has (Items [\<lparr>content = Has (Items [\<lparr>segment_text = Has None\<rparr>])\<rparr>]),
      str_of = ascii ''<response>''\<rparr>"

definition none_segment_world :: world where
  "none_segment_world =
     demo_world\<lparr>generate_content := (\<lambda>model contents max_output_tokens. Inr none_segment_response)\<rparr>"

text \<open>A model that returns a response whose \<open>candidates\<close> attribute holds \<open>None\<close>.\<close>

definition none_candidates_response :: gen_response where
  "none_candidates_response =
     \<lparr>text_attr = Has None, candidates = Has IsNone, str_of = ascii ''<response>''\<rparr>"

definition none_candidates_world :: world where
  "none_candidates_world =
     demo_world\<lparr>generate_content :=
       (\<lambda>model contents max_output_tokens. Inr none_candidates_response)\<rparr>"

text \<open>A model whose answer is the first content segment of the first candidate.\<close>

definition candidate_response :: gen_response where
  "candidate_response =
     \<lparr>text_attr = Missing,
      candidates =
        Has (Items [\<lparr>content = Has (Items [\<lparr>segment_text = Has (Some (ascii ''Take a slow breath. ''))\<rparr>])\<rparr>]),
      str_of = ascii ''<response>''\<rparr>"

definition candidate_world :: world where
  "candidate_world =
     demo_world\<lparr>generate_content := (\<lambda>model contents max_output_tokens. Inr candidate_response)\<rparr>"

text \<open>A model service that is down.\<close>

definition model_down_world :: world where
  "model_down_world =
     demo_world\<lparr>generate_content :=
       (\<lambda>model contents max_output_tokens. Inl (ServiceError (ascii ''quota'')))\<rparr>"

text \<open>\<open>{"message": "I want to END my life", "session_id": "s1", "save_opt_in_ciphertext": "c1ph3r"}\<close>\<close>

definition crisis_request :: ChatRequest where
  "crisis_request =
     \<lparr>session_id = Some (ascii ''s1''), message = ascii ''I want to END my life'',
      history = None, save_opt_in_ciphertext = Some (ascii ''c1ph3r'')\<rparr>"

text \<open>\<open>{"message": "I had a rough day", "history": [{"role": "user", "text": "hi"}, {"text": "hello"}],
  "session_id": "s1", "save_opt_in_ciphertext": "c1ph3r"}\<close>\<close>

definition plain_request :: ChatRequest where
  "plain_request =
     \<lparr>session_id = Some (ascii ''s1''), message = ascii ''I had a rough day'',
      history = Some [[ascii ''role'' \<mapsto> JStr (ascii ''user''), ascii ''text'' \<mapsto> JStr (ascii ''hi'')],
                      [ascii ''text'' \<mapsto> JStr (ascii ''hello'')]],
      save_opt_in_ciphertext = Some (ascii ''c1ph3r'')\<rparr>"

text \<open>\<open>{"message": "hello"}\<close>\<close>

definition bare_request :: ChatRequest where
  "bare_request =
     \<lparr>session_id = None, message = ascii ''hello'', history = None,
      save_opt_in_ciphertext = None\<rparr>"

text \<open>\<open>{"message": "and then?", "history": [{"role": "assistant"}]}\<close>\<close>

definition textless_request :: ChatRequest where
  "textless_request =
     \<lparr>session_id = None, message = ascii ''and then?'',
      history = Some [[ascii ''role'' \<mapsto> JStr (ascii ''assistant'')]],
      save_opt_in_ciphertext = None\<rparr>"

section \<open>Strings: basic facts\<close>

lemma startswith_iff: "startswith s k \<longleftrightarrow> (\<exists>v. s = k @ v)"
  by (induction s k rule: startswith.induct) auto

lemma py_in_iff: "py_in k s \<longleftrightarrow> (\<exists>u v. s = u @ k @ v)"
proof (induction s)
  case Nil
  then show ?case by auto
next
  case (Cons c cs)
  show ?case
  proof
    assume "py_in k (c # cs)"
    then consider "startswith (c # cs) k" | "py_in k cs" by auto
    then show "\<exists>u v. c # cs = u @ k @ v"
    proof cases
      case 1
      then obtain v where "c # cs = k @ v" by (auto simp: startswith_iff)
      then have "c # cs = [] @ k @ v" by simp
      then show ?thesis by blast
    next
      case 2
      then obtain u v where "cs = u @ k @ v" using Cons.IH by blast
      then have "c # cs = (c # u) @ k @ v" by simp
      then show ?thesis by blast
    qed
  next
    assume "\<exists>u v. c # cs = u @ k @ v"
    then obtain u v where uv: "c # cs = u @ k @ v" by blast
    show "py_in k (c # cs)"
    proof (cases u)
      case Nil
      with uv have "startswith (c # cs) k" by (auto simp: startswith_iff)
      then show ?thesis by simp
    next
      case (Cons a u')
      with uv have "cs = u' @ k @ v" by simp
      then have "py_in k cs" using Cons.IH by blast
      then show ?thesis by simp
    qed
  qed
qed

lemma contains_risk_iff:
  "contains_risk U text \<longleftrightarrow> (\<exists>k \<in> set RISK_KEYWORDS. \<exists>u v. py_lower U text = u @ k @ v)"
  by (simp add: contains_risk_def list_ex_iff py_in_iff)

lemma foldl_snoc_map: "foldl (\<lambda>ps m. ps @ [f m]) parts h = parts @ map f h"
  by (induction h arbitrary: parts) auto

lemma py_join_Cons: "py_join sep (p # ps) = p @ concat (map (\<lambda>q. sep @ q) ps)"
  by (induction sep "p # ps" arbitrary: p ps rule: py_join.induct) auto

lemmas line_102 =
  extract_reply_text_def on_value_def getattr_default_def hasattr_def attr_get_def index0_def

section \<open>The handler: structure\<close>

lemma resolve_frame:
  assumes "resolve_session_id req w = (sid, w1)"
  shows "trace w1 = trace w" "save_enabled w1 = save_enabled w"
    "unicode_lower w1 = unicode_lower w" "utcnow_isoformat w1 = utcnow_isoformat w"
    "generate_content w1 = generate_content w" "document_set w1 = document_set w"
    "firestore w1 = firestore w" "uuid_source w1 = uuid_source w"
  using assms
  by (auto simp: resolve_session_id_def uuid4_def split: option.splits if_splits)

lemma chat_cases [consumes 0, case_names crisis generate]:
  obtains
    (crisis) sid w1 where "resolve_session_id req w = (sid, w1)"
      "contains_risk (unicode_lower w) (message req)"
      "chat req w = crisis_branch req sid (utcnow_isoformat w @ ascii ''Z'') w1"
  | (generate) sid w1 where "resolve_session_id req w = (sid, w1)"
      "\<not> contains_risk (unicode_lower w) (message req)"
      "chat req w = generate_branch req sid (utcnow_isoformat w @ ascii ''Z'') w1"
proof (cases "resolve_session_id req w")
  case (Pair sid w1)
  note fr = resolve_frame [OF Pair]
  show thesis
  proof (cases "contains_risk (unicode_lower w) (message req)")
    case True
    with Pair fr have "chat req w = crisis_branch req sid (utcnow_isoformat w @ ascii ''Z'') w1"
      by (simp add: chat_def)
    with Pair True show thesis by (rule crisis)
  next
    case False
    with Pair fr have "chat req w = generate_branch req sid (utcnow_isoformat w @ ascii ''Z'') w1"
      by (simp add: chat_def)
    with Pair False show thesis by (rule generate)
  qed
qed

lemma emitted_eq:
  "chat req w = br \<Longrightarrow> trace (snd br) = trace w @ es \<Longrightarrow> emitted req w = es"
  by (simp add: emitted_def)

section \<open>The risk scan and the crisis reply\<close>

lemma crisis_branch_trace:
  "\<exists>es. trace (snd (crisis_branch req sid now w)) = trace w @ es \<and> filter is_model_call es = []"
  by (auto simp: crisis_branch_def save_doc_def emit_def Let_def split: option.splits)

lemma crisis_branch_reply:
  "\<exists>resp. fst (crisis_branch req sid now w) = Inr resp \<and> reply resp = crisis_reply"
  by (auto simp: crisis_branch_def save_doc_def emit_def Let_def split: option.splits prod.splits)

lemma crisis_no_model_call:
  assumes "contains_risk (unicode_lower w) (message req)"
  shows "filter is_model_call (emitted req w) = []"
proof (cases rule: chat_cases [of req w])
  case (crisis sid w1)
  obtain es where
    "trace (snd (crisis_branch req sid (utcnow_isoformat w @ ascii ''Z'') w1)) = trace w1 @ es"
    "filter is_model_call es = []"
    using crisis_branch_trace by blast
  then show ?thesis
    using emitted_eq [OF crisis(3)] resolve_frame(1) [OF crisis(1)] by simp
next
  case (generate sid w1)
  with assms show ?thesis by simp
qed

lemma crisis_reply_returned:
  assumes "contains_risk (unicode_lower w) (message req)"
  shows "\<exists>resp. fst (chat req w) = Inr resp \<and> reply resp = crisis_reply"
proof (cases rule: chat_cases [of req w])
  case (crisis sid w1)
  then show ?thesis using crisis_branch_reply by simp
next
  case (generate sid w1)
  with assms show ?thesis by simp
qed

text \<open>
  An occurrence of a keyword in the message in any mix of ASCII upper and lower case is
  found by the scan, whatever the Unicode database says about the other code points.
\<close>

lemma lower_from_ascii:
  "\<forall>c \<in> set x. c < 128 \<Longrightarrow>
     lower_from U before (x @ rest) = map ascii_lower x @ lower_from U (before @ x) rest"
  by (induction x arbitrary: before) auto

lemma lower_from_append:
  "\<exists>a. lower_from U before (u @ rest) = a @ lower_from U (before @ u) rest"
proof (induction u arbitrary: before)
  case Nil
  then show ?case by simp
next
  case (Cons c u)
  obtain a where a: "lower_from U (before @ [c]) (u @ rest) = a @ lower_from U ((before @ [c]) @ u) rest"
    using Cons.IH by blast
  have "lower_from U before ((c # u) @ rest)
        = ((if c < 128 then [ascii_lower c] else U before c (u @ rest)) @ a)
          @ lower_from U (before @ c # u) rest"
    using a by simp
  then show ?case by blast
qed

lemma contains_risk_ascii_occurrence:
  assumes "message_text = u @ x @ v" and "\<forall>c \<in> set x. c < 128"
    and "map ascii_lower x \<in> set RISK_KEYWORDS"
  shows "contains_risk U message_text"
proof -
  obtain a where "py_lower U message_text = a @ lower_from U u (x @ v)"
    using lower_from_append [of U "[]" u "x @ v"] assms(1) by (auto simp: py_lower_def)
  then have "py_lower U message_text = a @ map ascii_lower x @ lower_from U (u @ x) v"
    using lower_from_ascii [OF assms(2)] by simp
  with assms(3) show ?thesis
    unfolding contains_risk_iff by blast
qed

text \<open>
  C1. For every request whose message, lower-cased, contains a string of the risk-keyword
  list as a substring, the handler returns a response whose reply is the fixed crisis
  text, and the call emits no call of the model client.
\<close>

theorem crisis_reply_without_model_call:
  assumes "k \<in> set RISK_KEYWORDS"
    and "py_lower (unicode_lower w) (message req) = u @ k @ v"
  shows "(\<exists>resp. fst (chat req w) = Inr resp \<and> reply resp = crisis_reply)
         \<and> filter is_model_call (emitted req w) = []"
proof -
  from assms have "contains_risk (unicode_lower w) (message req)"
    unfolding contains_risk_iff by blast
  then show ?thesis
    by (simp add: crisis_no_model_call crisis_reply_returned)
qed

lemma crisis_request_lower:
  "py_lower (unicode_lower demo_world) (message crisis_request) = ascii ''i want to end my life''"
  by (simp add: py_lower_def demo_world_def crisis_request_def ascii_def ascii_lower_def)

theorem crisis_reply_without_model_call_witness:
  "ascii ''end my life'' \<in> set RISK_KEYWORDS
   \<and> py_lower (unicode_lower demo_world) (message crisis_request)
       = ascii ''i want to '' @ ascii ''end my life'' @ []
   \<and> (\<exists>resp. fst (chat crisis_request demo_world) = Inr resp \<and> reply resp = crisis_reply)
   \<and> filter is_model_call (emitted crisis_request demo_world) = []"
proof -
  have k: "ascii ''end my life'' \<in> set RISK_KEYWORDS"
    by (simp add: RISK_KEYWORDS_def)
  have l: "py_lower (unicode_lower demo_world) (message crisis_request)
           = ascii ''i want to '' @ ascii ''end my life'' @ []"
    by (simp add: crisis_request_lower ascii_def)
  show ?thesis
    using k l crisis_reply_without_model_call [OF k l] by simp
qed

section \<open>The prompt and the call of the model\<close>

lemma build_prompt_parts:
  "build_prompt req =
     py_join [10, 10]
       ([SYSTEM_PROMPT] @ map render_entry (case history req of None \<Rightarrow> [] | Some h \<Rightarrow> h)
        @ [ascii ''user: '' @ message req])"
  by (simp add: build_prompt_def Let_def foldl_snoc_map split: option.splits)

lemma render_entry_explicit:
  "render_entry m =
     (case m (ascii ''role'') of None \<Rightarrow> ascii ''user'' | Some v \<Rightarrow> py_format v) @ ascii '': '' @
     (case m (ascii ''text'') of None \<Rightarrow> ascii ''None'' | Some v \<Rightarrow> py_format v)"
  by (simp add: render_entry_def dict_get_def split: option.splits)

lemma build_prompt_explicit:
  "build_prompt req =
     SYSTEM_PROMPT
     @ concat (map (\<lambda>m. [10, 10]
                 @ (case m (ascii ''role'') of None \<Rightarrow> ascii ''user'' | Some v \<Rightarrow> py_format v)
                 @ ascii '': ''
                 @ (case m (ascii ''text'') of None \<Rightarrow> ascii ''None'' | Some v \<Rightarrow> py_format v))
               (case history req of None \<Rightarrow> [] | Some h \<Rightarrow> h))
     @ [10, 10] @ ascii ''user: '' @ message req"
  unfolding build_prompt_parts
  by (simp add: py_join_Cons render_entry_explicit comp_def)

lemma generate_branch_model_calls:
  "\<exists>es. trace (snd (generate_branch req sid now w))
          = trace w @ ModelCall (ascii ''gemini-2.5-flash'') (build_prompt req) 400 # es
        \<and> filter is_model_call es = []"
  by (auto simp: generate_branch_def save_doc_def emit_def Let_def
      split: option.splits sum.splits prod.splits)

lemma model_calls_generate:
  assumes "\<not> contains_risk (unicode_lower w) (message req)"
  shows "filter is_model_call (emitted req w)
         = [ModelCall (ascii ''gemini-2.5-flash'') (build_prompt req) 400]"
proof (cases rule: chat_cases [of req w])
  case (crisis sid w1)
  with assms show ?thesis by simp
next
  case (generate sid w1)
  obtain es where es:
    "trace (snd (generate_branch req sid (utcnow_isoformat w @ ascii ''Z'') w1))
       = trace w1 @ ModelCall (ascii ''gemini-2.5-flash'') (build_prompt req) 400 # es"
    "filter is_model_call es = []"
    using generate_branch_model_calls by blast
  have "emitted req w = ModelCall (ascii ''gemini-2.5-flash'') (build_prompt req) 400 # es"
    using emitted_eq [OF generate(3)] es(1) resolve_frame(1) [OF generate(1)] by simp
  with es(2) show ?thesis by simp
qed

text \<open>
  C2. For every request whose message contains no risk keyword, the call emits exactly one
  call of the model client (model gemini-2.5-flash, at most 400 output tokens), and its
  contents are the system instruction, then for each history entry in order a blank line
  and "role: text" (the role "user" when the entry has no role), then a blank line and
  "user: " followed by the message.
\<close>

theorem one_model_call_with_assembled_prompt:
  assumes "\<not> contains_risk (unicode_lower w) (message req)"
  shows "filter is_model_call (emitted req w) =
     [ModelCall (ascii ''gemini-2.5-flash'')
        (SYSTEM_PROMPT
         @ concat (map (\<lambda>m. [10, 10]
                     @ (case m (ascii ''role'') of None \<Rightarrow> ascii ''user'' | Some v \<Rightarrow> py_format v)
                     @ ascii '': ''
                     @ (case m (ascii ''text'') of None \<Rightarrow> ascii ''None'' | Some v \<Rightarrow> py_format v))
                   (case history req of None \<Rightarrow> [] | Some h \<Rightarrow> h))
         @ [10, 10] @ ascii ''user: '' @ message req)
        400]"
  using model_calls_generate [OF assms] by (simp add: build_prompt_explicit)

lemma plain_request_no_risk:
  "\<not> contains_risk (unicode_lower demo_world) (message plain_request)"
  by (simp add: contains_risk_def py_lower_def demo_world_def plain_request_def ascii_def
      ascii_lower_def RISK_KEYWORDS_def)

theorem one_model_call_with_assembled_prompt_witness:
  "\<not> contains_risk (unicode_lower demo_world) (message plain_request)
   \<and> filter is_model_call (emitted plain_request demo_world) =
     [ModelCall (ascii ''gemini-2.5-flash'')
        (SYSTEM_PROMPT @ [10, 10] @ ascii ''user: hi'' @ [10, 10] @ ascii ''user: hello''
         @ [10, 10] @ ascii ''user: I had a rough day'')
        400]"
proof -
  have h: "\<not> contains_risk (unicode_lower demo_world) (message plain_request)"
    by (rule plain_request_no_risk)
  show ?thesis
    using h one_model_call_with_assembled_prompt [OF h]
    by (simp add: plain_request_def ascii_def)
qed

text \<open>
  C10. For every request without a risk keyword whose history has an entry with no "text"
  key, the entry is neither rejected nor skipped: the one call of the model client has, at
  the entry's place among the parts of the prompt, the entry's role followed by ": None"
  (so "user: None" when the entry has no role either).
\<close>

theorem history_entry_without_text_is_rendered_as_None:
  assumes "\<not> contains_risk (unicode_lower w) (message req)"
    and "history req = Some (earlier @ [m] @ later)"
    and "m (ascii ''text'') = None"
  shows "filter is_model_call (emitted req w) =
     [ModelCall (ascii ''gemini-2.5-flash'')
        (py_join [10, 10]
           ([SYSTEM_PROMPT] @ map render_entry earlier
            @ [(case m (ascii ''role'') of None \<Rightarrow> ascii ''user'' | Some v \<Rightarrow> py_format v)
               @ ascii '': None'']
            @ map render_entry later
            @ [ascii ''user: '' @ message req]))
        400]"
proof -
  have "render_entry m =
        (case m (ascii ''role'') of None \<Rightarrow> ascii ''user'' | Some v \<Rightarrow> py_format v) @ ascii '': None''"
    using assms(3) by (simp add: render_entry_explicit ascii_def)
  then show ?thesis
    using model_calls_generate [OF assms(1)] assms(2) by (simp add: build_prompt_parts)
qed

lemma textless_request_no_risk:
  "\<not> contains_risk (unicode_lower demo_world) (message textless_request)"
  by (simp add: contains_risk_def py_lower_def demo_world_def textless_request_def ascii_def
      ascii_lower_def RISK_KEYWORDS_def)

theorem history_entry_without_text_is_rendered_as_None_witness:
  "\<not> contains_risk (unicode_lower demo_world) (message textless_request)
   \<and> history textless_request = Some ([] @ [[ascii ''role'' \<mapsto> JStr (ascii ''assistant'')]] @ [])
   \<and> [ascii ''role'' \<mapsto> JStr (ascii ''assistant'')] (ascii ''text'') = None
   \<and> filter is_model_call (emitted textless_request demo_world) =
     [ModelCall (ascii ''gemini-2.5-flash'')
        (SYSTEM_PROMPT @ [10, 10] @ ascii ''assistant: None'' @ [10, 10] @ ascii ''user: and then?'')
        400]"
proof -
  have h: "\<not> contains_risk (unicode_lower demo_world) (message textless_request)"
    by (rule textless_request_no_risk)
  have e: "history textless_request = Some ([] @ [[ascii ''role'' \<mapsto> JStr (ascii ''assistant'')]] @ [])"
    by (simp add: textless_request_def)
  have t: "[ascii ''role'' \<mapsto> JStr (ascii ''assistant'')] (ascii ''text'') = None"
    by (simp add: ascii_def)
  show ?thesis
    using h e t history_entry_without_text_is_rendered_as_None [OF h e t]
    by (simp add: textless_request_def ascii_def)
qed

section \<open>The crisis branch never fails\<close>

text \<open>
  C9. For every request whose message the risk scan flags, with any session id, history
  and ciphertext, and whatever the store does, the handler returns a response: no
  exception leaves it.
\<close>

theorem crisis_branch_is_total:
  assumes "contains_risk (unicode_lower w) (message req)"
  shows "\<exists>resp. fst (chat req w) = Inr resp"
  using crisis_reply_returned [OF assms] by blast

lemma crisis_request_risk:
  "contains_risk (unicode_lower w) (message crisis_request)"
  by (rule contains_risk_ascii_occurrence [where u = "ascii ''I want to ''" and x = "ascii ''END my life''" and v = "[]"])
     (simp_all add: crisis_request_def ascii_def ascii_lower_def RISK_KEYWORDS_def)

theorem crisis_branch_is_total_witness:
  "contains_risk (unicode_lower broken_store_world) (message crisis_request)
   \<and> (\<exists>resp. fst (chat crisis_request broken_store_world) = Inr resp)"
  using crisis_request_risk [of broken_store_world]
    crisis_branch_is_total [of broken_store_world crisis_request]
  by simp


section \<open>The handler: every outcome\<close>

lemma save_doc_eq:
  "save_doc sid doc w =
     (document_set w (ascii ''saved_sessions'') sid doc = None,
      w\<lparr>trace := trace w @ DbSet (ascii ''saved_sessions'') sid doc #
                 (case document_set w (ascii ''saved_sessions'') sid doc of
                    None \<Rightarrow> [] | Some e \<Rightarrow> [Print (ascii ''Firestore save failed:'') e]),
        firestore := (case document_set w (ascii ''saved_sessions'') sid doc of
                        None \<Rightarrow> (firestore w)((ascii ''saved_sessions'', sid) \<mapsto> doc)
                      | Some e \<Rightarrow> firestore w)\<rparr>)"
  by (simp add: save_doc_def emit_def Let_def split: option.splits)

lemma chat_outcomes
  [consumes 0, case_names crisis crisis_write failed reply no_text reply_write no_text_opt_in]:
  obtains
    (crisis) sid w1 where
      "resolve_session_id req w = (sid, w1)"
      "contains_risk (unicode_lower w) (message req)"
      "save_opt_in_ciphertext req = None \<or> save_opt_in_ciphertext req = Some []
         \<or> \<not> save_enabled w"
      "chat req w =
         (Inr \<lparr>resp_session_id = sid, reply = crisis_reply,
               timestamp = utcnow_isoformat w @ ascii ''Z'', saved = False\<rparr>, w1)"
  | (crisis_write) sid w1 c where
      "resolve_session_id req w = (sid, w1)"
      "contains_risk (unicode_lower w) (message req)"
      "save_opt_in_ciphertext req = Some c" "c \<noteq> []" "save_enabled w"
      "chat req w =
         (Inr \<lparr>resp_session_id = sid, reply = crisis_reply,
               timestamp = utcnow_isoformat w @ ascii ''Z'',
               saved = (document_set w (ascii ''saved_sessions'') sid
                          (crisis_doc sid c (utcnow_isoformat w @ ascii ''Z'')) = None)\<rparr>,
          snd (save_doc sid (crisis_doc sid c (utcnow_isoformat w @ ascii ''Z'')) w1))"
  | (failed) sid w1 e where
      "resolve_session_id req w = (sid, w1)"
      "\<not> contains_risk (unicode_lower w) (message req)"
      "generate_content w (ascii ''gemini-2.5-flash'') (build_prompt req) 400 = Inl e
       \<or> (\<exists>r. generate_content w (ascii ''gemini-2.5-flash'') (build_prompt req) 400 = Inr r
              \<and> extract_reply_text r = Inl e)"
      "chat req w =
         (Inl (HTTPException 500 (ascii ''AI generation failed'')),
          w1\<lparr>trace := trace w @ [ModelCall (ascii ''gemini-2.5-flash'') (build_prompt req) 400,
                                   Print (ascii ''GenAI call failed:'') e]\<rparr>)"
  | (reply) sid w1 r t where
      "resolve_session_id req w = (sid, w1)"
      "\<not> contains_risk (unicode_lower w) (message req)"
      "generate_content w (ascii ''gemini-2.5-flash'') (build_prompt req) 400 = Inr r"
      "extract_reply_text r = Inr (Some t)"
      "save_opt_in_ciphertext req = None \<or> save_opt_in_ciphertext req = Some []
         \<or> \<not> save_enabled w"
      "chat req w =
         (Inr \<lparr>resp_session_id = sid, reply = py_strip t,
               timestamp = utcnow_isoformat w @ ascii ''Z'', saved = False\<rparr>,
          w1\<lparr>trace := trace w @ [ModelCall (ascii ''gemini-2.5-flash'') (build_prompt req) 400]\<rparr>)"
  | (no_text) sid w1 r where
      "resolve_session_id req w = (sid, w1)"
      "\<not> contains_risk (unicode_lower w) (message req)"
      "generate_content w (ascii ''gemini-2.5-flash'') (build_prompt req) 400 = Inr r"
      "extract_reply_text r = Inr None"
      "save_opt_in_ciphertext req = None \<or> save_opt_in_ciphertext req = Some []
         \<or> \<not> save_enabled w"
      "chat req w =
         (Inl AttributeError,
          w1\<lparr>trace := trace w @ [ModelCall (ascii ''gemini-2.5-flash'') (build_prompt req) 400]\<rparr>)"
  | (reply_write) sid w1 r t c where
      "resolve_session_id req w = (sid, w1)"
      "\<not> contains_risk (unicode_lower w) (message req)"
      "generate_content w (ascii ''gemini-2.5-flash'') (build_prompt req) 400 = Inr r"
      "extract_reply_text r = Inr (Some t)"
      "save_opt_in_ciphertext req = Some c" "c \<noteq> []" "save_enabled w"
      "chat req w =
         (Inr \<lparr>resp_session_id = sid, reply = py_strip t,
               timestamp = utcnow_isoformat w @ ascii ''Z'',
               saved = (document_set w (ascii ''saved_sessions'') sid
                          (reply_doc sid c (utcnow_isoformat w @ ascii ''Z'') t) = None)\<rparr>,
          snd (save_doc sid (reply_doc sid c (utcnow_isoformat w @ ascii ''Z'') t)
                 (w1\<lparr>trace := trace w @ [ModelCall (ascii ''gemini-2.5-flash'') (build_prompt req) 400]\<rparr>)))"
  | (no_text_opt_in) sid w1 r c where
      "resolve_session_id req w = (sid, w1)"
      "\<not> contains_risk (unicode_lower w) (message req)"
      "generate_content w (ascii ''gemini-2.5-flash'') (build_prompt req) 400 = Inr r"
      "extract_reply_text r = Inr None"
      "save_opt_in_ciphertext req = Some c" "c \<noteq> []" "save_enabled w"
      "chat req w =
         (Inl AttributeError,
          w1\<lparr>trace := trace w @ [ModelCall (ascii ''gemini-2.5-flash'') (build_prompt req) 400,
                                   Print (ascii ''Firestore save failed:'') TypeError]\<rparr>)"
proof (cases rule: chat_cases [of req w])
  case (crisis sid w1)
  note c0 = this and fr = resolve_frame [OF this(1)]
  show thesis
  proof (cases "save_opt_in_ciphertext req = None \<or> save_opt_in_ciphertext req = Some []
                \<or> \<not> save_enabled w")
    case True
    then have "chat req w =
         (Inr \<lparr>resp_session_id = sid, reply = crisis_reply,
               timestamp = utcnow_isoformat w @ ascii ''Z'', saved = False\<rparr>, w1)"
      using c0(3) fr(2) by (auto simp: crisis_branch_def split: option.splits)
    with c0(1,2) True show thesis by (rule that(1))
  next
    case False
    then obtain c where c: "save_opt_in_ciphertext req = Some c" "c \<noteq> []" "save_enabled w"
      by auto
    then have "chat req w =
         (Inr \<lparr>resp_session_id = sid, reply = crisis_reply,
               timestamp = utcnow_isoformat w @ ascii ''Z'',
               saved = (document_set w (ascii ''saved_sessions'') sid
                          (crisis_doc sid c (utcnow_isoformat w @ ascii ''Z'')) = None)\<rparr>,
          snd (save_doc sid (crisis_doc sid c (utcnow_isoformat w @ ascii ''Z'')) w1))"
      using c0(3) fr(2,6) by (simp add: crisis_branch_def save_doc_eq)
    with c0(1,2) c show thesis by (rule that(2))
  qed
next
  case (generate sid w1)
  note g0 = this and fr = resolve_frame [OF this(1)]
  let ?M = "ModelCall (ascii ''gemini-2.5-flash'') (build_prompt req) 400"
  show thesis
  proof (cases "generate_content w (ascii ''gemini-2.5-flash'') (build_prompt req) 400")
    case (Inl e)
    then have "chat req w =
         (Inl (HTTPException 500 (ascii ''AI generation failed'')),
          w1\<lparr>trace := trace w @ [?M, Print (ascii ''GenAI call failed:'') e]\<rparr>)"
      using g0(3) fr(1,5) by (simp add: generate_branch_def emit_def Let_def)
    with g0(1,2) Inl show thesis by (intro that(3)) auto
  next
    case (Inr r)
    show thesis
    proof (cases "extract_reply_text r")
      case (Inl e)
      then have "chat req w =
         (Inl (HTTPException 500 (ascii ''AI generation failed'')),
          w1\<lparr>trace := trace w @ [?M, Print (ascii ''GenAI call failed:'') e]\<rparr>)"
        using g0(3) fr(1,5) Inr by (simp add: generate_branch_def emit_def Let_def)
      with g0(1,2) Inr Inl show thesis by (intro that(3)) auto
    next
      case ex: (Inr reply_text)
      show thesis
      proof (cases "save_opt_in_ciphertext req = None \<or> save_opt_in_ciphertext req = Some []
                \<or> \<not> save_enabled w")
        case True
        show thesis
        proof (cases reply_text)
          case None
          then have "chat req w = (Inl AttributeError, w1\<lparr>trace := trace w @ [?M]\<rparr>)"
            using g0(3) fr(1,2,5) Inr ex True
            by (auto simp: generate_branch_def emit_def Let_def split: option.splits)
          with g0(1,2) Inr ex None True show thesis by (intro that(5)) auto
        next
          case (Some t)
          then have "chat req w =
             (Inr \<lparr>resp_session_id = sid, reply = py_strip t,
               timestamp = utcnow_isoformat w @ ascii ''Z'', saved = False\<rparr>,
              w1\<lparr>trace := trace w @ [?M]\<rparr>)"
            using g0(3) fr(1,2,5) Inr ex True
            by (auto simp: generate_branch_def emit_def Let_def split: option.splits)
          with g0(1,2) Inr ex Some True show thesis by (intro that(4)) auto
        qed
      next
        case False
        then obtain c where c: "save_opt_in_ciphertext req = Some c" "c \<noteq> []" "save_enabled w"
          by auto
        show thesis
        proof (cases reply_text)
          case None
          then have "chat req w =
             (Inl AttributeError,
              w1\<lparr>trace := trace w @ [?M, Print (ascii ''Firestore save failed:'') TypeError]\<rparr>)"
            using g0(3) fr(1,2,5) Inr ex c
            by (simp add: generate_branch_def emit_def Let_def)
          with g0(1,2) Inr ex None c show thesis by (intro that(7)) auto
        next
          case (Some t)
          then have "chat req w =
             (Inr \<lparr>resp_session_id = sid, reply = py_strip t,
               timestamp = utcnow_isoformat w @ ascii ''Z'',
               saved = (document_set w (ascii ''saved_sessions'') sid
                          (reply_doc sid c (utcnow_isoformat w @ ascii ''Z'') t) = None)\<rparr>,
              snd (save_doc sid (reply_doc sid c (utcnow_isoformat w @ ascii ''Z'') t)
                 (w1\<lparr>trace := trace w @ [?M]\<rparr>)))"
            using g0(3) fr(1,2,5,6) Inr ex c
            by (simp add: generate_branch_def emit_def Let_def save_doc_eq)
          with g0(1,2) Inr ex Some c show thesis by (intro that(6)) auto
        qed
      qed
    qed
  qed
qed

text \<open>A call only appends to the trace: \<open>emitted\<close> is all it did.\<close>

lemma trace_chat: "trace (snd (chat req w)) = trace w @ emitted req w"
proof (cases rule: chat_outcomes [of req w])
  case (crisis sid w1)
  then show ?thesis using resolve_frame [OF crisis(1)] by (simp add: emitted_def)
next
  case (crisis_write sid w1 c)
  then show ?thesis using resolve_frame [OF crisis_write(1)] by (simp add: emitted_def save_doc_eq)
next
  case (failed sid w1 e)
  then show ?thesis using resolve_frame [OF failed(1)] by (simp add: emitted_def)
next
  case (reply sid w1 r t)
  then show ?thesis using resolve_frame [OF reply(1)] by (simp add: emitted_def)
next
  case (no_text sid w1 r)
  then show ?thesis using resolve_frame [OF no_text(1)] by (simp add: emitted_def)
next
  case (reply_write sid w1 r t c)
  then show ?thesis using resolve_frame [OF reply_write(1)] by (simp add: emitted_def save_doc_eq)
next
  case (no_text_opt_in sid w1 r c)
  then show ?thesis using resolve_frame [OF no_text_opt_in(1)] by (simp add: emitted_def)
qed

section \<open>Persistence\<close>

text \<open>
  C4. On either branch, when the request carries no ciphertext, or an empty one, or
  persistence is not configured, the call emits no write, leaves the store as it was, and
  any response it returns has \<open>saved = False\<close>. So a write is attempted only when the
  ciphertext is non-empty and persistence is configured.
\<close>

theorem no_write_without_opt_in_or_store:
  assumes "save_opt_in_ciphertext req = None \<or> save_opt_in_ciphertext req = Some []
           \<or> \<not> save_enabled w"
  shows "filter is_db_set (emitted req w) = []
         \<and> firestore (snd (chat req w)) = firestore w
         \<and> (\<forall>resp. fst (chat req w) = Inr resp \<longrightarrow> \<not> saved resp)"
proof (cases rule: chat_outcomes [of req w])
  case (crisis sid w1)
  then show ?thesis using resolve_frame [OF crisis(1)] by (auto simp: emitted_def)
next
  case (crisis_write sid w1 c)
  with assms show ?thesis by auto
next
  case (failed sid w1 e)
  then show ?thesis using resolve_frame [OF failed(1)] by (auto simp: emitted_def)
next
  case (reply sid w1 r t)
  then show ?thesis using resolve_frame [OF reply(1)] by (auto simp: emitted_def)
next
  case (no_text sid w1 r)
  then show ?thesis using resolve_frame [OF no_text(1)] by (auto simp: emitted_def)
next
  case (reply_write sid w1 r t c)
  with assms show ?thesis by auto
next
  case (no_text_opt_in sid w1 r c)
  with assms show ?thesis by auto
qed

lemma plain_request_no_risk_any:
  "unicode_lower w = (\<lambda>before c rest. [c]) \<Longrightarrow> \<not> contains_risk (unicode_lower w) (message plain_request)"
  by (simp add: contains_risk_def py_lower_def plain_request_def ascii_def
      ascii_lower_def RISK_KEYWORDS_def)

lemma chat_plain_no_store:
  "chat plain_request no_store_world =
     (Inr \<lparr>resp_session_id = ascii ''s1'',
           reply = ascii ''That sounds tough, want to talk about it?'',
           timestamp = ascii ''2025-01-01T12:00:00Z'', saved = False\<rparr>,
      no_store_world\<lparr>trace := [ModelCall (ascii ''gemini-2.5-flash'') (build_prompt plain_request) 400]\<rparr>)"
proof -
  have "\<not> contains_risk (unicode_lower no_store_world) (message plain_request)"
    by (rule plain_request_no_risk_any) (simp add: no_store_world_def demo_world_def)
  moreover have "resolve_session_id plain_request no_store_world = (ascii ''s1'', no_store_world)"
    by (simp add: resolve_session_id_def plain_request_def ascii_def)
  moreover have "extract_reply_text demo_response
                 = Inr (Some (ascii '' That sounds tough, want to talk about it? ''))"
    by (simp add: line_102 demo_response_def ascii_def)
  moreover have "py_strip (ascii '' That sounds tough, want to talk about it? '')
                 = ascii ''That sounds tough, want to talk about it?''"
    by (simp add: py_strip_def py_isspace_def ascii_def)
  ultimately show ?thesis
    by (simp add: chat_def generate_branch_def emit_def Let_def no_store_world_def demo_world_def
        plain_request_def ascii_def)
qed

theorem no_write_without_opt_in_or_store_witness:
  "(save_opt_in_ciphertext plain_request = None \<or> save_opt_in_ciphertext plain_request = Some []
      \<or> \<not> save_enabled no_store_world)
   \<and> filter is_db_set (emitted plain_request no_store_world) = []
   \<and> firestore (snd (chat plain_request no_store_world)) = firestore no_store_world
   \<and> fst (chat plain_request no_store_world) =
       Inr \<lparr>resp_session_id = ascii ''s1'',
            reply = ascii ''That sounds tough, want to talk about it?'',
            timestamp = ascii ''2025-01-01T12:00:00Z'', saved = False\<rparr>"
proof -
  have h: "save_opt_in_ciphertext plain_request = None \<or> save_opt_in_ciphertext plain_request = Some []
           \<or> \<not> save_enabled no_store_world"
    by (simp add: no_store_world_def)
  show ?thesis
    using h no_write_without_opt_in_or_store [OF h] by (simp add: chat_plain_no_store)
qed

text \<open>
  C5. On either branch, whenever the call attempts a write, the handler returns a response
  (an exception of the write does not leave it), and \<open>saved\<close> is true when the write
  succeeded and false when it raised.
\<close>

theorem write_failure_never_fails_the_request:
  assumes "DbSet collection key doc \<in> set (emitted req w)"
  shows "\<exists>resp. fst (chat req w) = Inr resp
               \<and> saved resp = (document_set w collection key doc = None)"
proof (cases rule: chat_outcomes [of req w])
  case (crisis sid w1)
  then show ?thesis using assms resolve_frame [OF crisis(1)] by (auto simp: emitted_def)
next
  case (crisis_write sid w1 c)
  then show ?thesis using assms resolve_frame [OF crisis_write(1)]
    by (auto simp: emitted_def save_doc_eq split: option.splits)
next
  case (failed sid w1 e)
  then show ?thesis using assms resolve_frame [OF failed(1)] by (auto simp: emitted_def)
next
  case (reply sid w1 r t)
  then show ?thesis using assms resolve_frame [OF reply(1)] by (auto simp: emitted_def)
next
  case (no_text sid w1 r)
  then show ?thesis using assms resolve_frame [OF no_text(1)] by (auto simp: emitted_def)
next
  case (reply_write sid w1 r t c)
  then show ?thesis using assms resolve_frame [OF reply_write(1)]
    by (auto simp: emitted_def save_doc_eq split: option.splits)
next
  case (no_text_opt_in sid w1 r c)
  then show ?thesis using assms resolve_frame [OF no_text_opt_in(1)] by (auto simp: emitted_def)
qed

text \<open>
  C6. Every document the call writes goes to the collection saved_sessions under the
  session id of the response, and holds that session id, the ciphertext of the request as
  it came, the timestamp of the response and \<open>opt_in = True\<close>. On the crisis branch these
  four fields are all of it (no snippet); on the other branch a fifth field, snippet, holds
  the first 200 code points of the reply text extracted from the model's response (the text
  before the trimming that the reply of the response gets). When the write succeeds the
  store holds the document under that key, and otherwise the store is as it was.
\<close>

theorem persisted_record_fields:
  assumes "DbSet collection key doc \<in> set (emitted req w)"
  shows "\<exists>resp c.
           fst (chat req w) = Inr resp
         \<and> save_opt_in_ciphertext req = Some c
         \<and> collection = ascii ''saved_sessions''
         \<and> key = resp_session_id resp
         \<and> (if contains_risk (unicode_lower w) (message req)
            then doc = [(ascii ''session_id'', FStr (resp_session_id resp)),
                        (ascii ''ciphertext'', FStr c),
                        (ascii ''created_at'', FStr (timestamp resp)),
                        (ascii ''opt_in'', FBool True)]
            else \<exists>r t. generate_content w (ascii ''gemini-2.5-flash'') (build_prompt req) 400 = Inr r
                     \<and> extract_reply_text r = Inr (Some t)
                     \<and> doc = [(ascii ''session_id'', FStr (resp_session_id resp)),
                              (ascii ''ciphertext'', FStr c),
                              (ascii ''created_at'', FStr (timestamp resp)),
                              (ascii ''opt_in'', FBool True),
                              (ascii ''snippet'', FStr (take 200 t))])
         \<and> firestore (snd (chat req w))
             = (if saved resp then (firestore w)((collection, key) \<mapsto> doc) else firestore w)"
proof (cases rule: chat_outcomes [of req w])
  case (crisis sid w1)
  then show ?thesis using assms resolve_frame [OF crisis(1)] by (auto simp: emitted_def)
next
  case (crisis_write sid w1 c)
  then show ?thesis using assms resolve_frame [OF crisis_write(1)]
    by (auto simp: emitted_def save_doc_eq crisis_doc_def split: option.splits)
next
  case (failed sid w1 e)
  then show ?thesis using assms resolve_frame [OF failed(1)] by (auto simp: emitted_def)
next
  case (reply sid w1 r t)
  then show ?thesis using assms resolve_frame [OF reply(1)] by (auto simp: emitted_def)
next
  case (no_text sid w1 r)
  then show ?thesis using assms resolve_frame [OF no_text(1)] by (auto simp: emitted_def)
next
  case (reply_write sid w1 r t c)
  then show ?thesis using assms resolve_frame [OF reply_write(1)]
    by (auto simp: emitted_def save_doc_eq reply_doc_def split: option.splits)
next
  case (no_text_opt_in sid w1 r c)
  then show ?thesis using assms resolve_frame [OF no_text_opt_in(1)] by (auto simp: emitted_def)
qed

lemma demo_worlds_trace:
  "trace demo_world = []" "trace broken_store_world = []" "trace no_store_world = []"
  by (simp_all add: demo_world_def broken_store_world_def no_store_world_def)

lemma demo_requests_ciphertext:
  "save_opt_in_ciphertext plain_request = Some (ascii ''c1ph3r'')"
  "save_opt_in_ciphertext crisis_request = Some (ascii ''c1ph3r'')"
  by (simp_all add: plain_request_def crisis_request_def)

lemma demo_reply_text:
  "extract_reply_text demo_response
     = Inr (Some (ascii '' That sounds tough, want to talk about it? ''))"
  by (simp add: line_102 demo_response_def ascii_def)

lemma demo_reply_strip:
  "py_strip (ascii '' That sounds tough, want to talk about it? '')
     = ascii ''That sounds tough, want to talk about it?''"
  by (simp add: py_strip_def py_isspace_def ascii_def)

lemma crisis_request_risk_any:
  "contains_risk U (message crisis_request)"
  by (rule contains_risk_ascii_occurrence
        [where u = "ascii ''I want to ''" and x = "ascii ''END my life''" and v = "[]"])
     (simp_all add: crisis_request_def ascii_def ascii_lower_def RISK_KEYWORDS_def)

lemma chat_plain_broken_store:
  "chat plain_request broken_store_world =
     (Inr \<lparr>resp_session_id = ascii ''s1'',
           reply = ascii ''That sounds tough, want to talk about it?'',
           timestamp = ascii ''2025-01-01T12:00:00Z'', saved = False\<rparr>,
      broken_store_world\<lparr>trace :=
        [ModelCall (ascii ''gemini-2.5-flash'') (build_prompt plain_request) 400,
         DbSet (ascii ''saved_sessions'') (ascii ''s1'')
           [(ascii ''session_id'', FStr (ascii ''s1'')),
            (ascii ''ciphertext'', FStr (ascii ''c1ph3r'')),
            (ascii ''created_at'', FStr (ascii ''2025-01-01T12:00:00Z'')),
            (ascii ''opt_in'', FBool True),
            (ascii ''snippet'', FStr (ascii '' That sounds tough, want to talk about it? ''))],
         Print (ascii ''Firestore save failed:'') (ServiceError (ascii ''unavailable''))]\<rparr>)"
proof -
  have "\<not> contains_risk (unicode_lower broken_store_world) (message plain_request)"
    by (rule plain_request_no_risk_any) (simp add: broken_store_world_def demo_world_def)
  moreover have "resolve_session_id plain_request broken_store_world = (ascii ''s1'', broken_store_world)"
    by (simp add: resolve_session_id_def plain_request_def ascii_def)
  ultimately show ?thesis
    using demo_reply_text demo_reply_strip
    by (simp add: chat_def generate_branch_def save_doc_def reply_doc_def emit_def Let_def
        broken_store_world_def demo_world_def plain_request_def ascii_def)
qed

lemma chat_plain_demo:
  "chat plain_request demo_world =
     (Inr \<lparr>resp_session_id = ascii ''s1'',
           reply = ascii ''That sounds tough, want to talk about it?'',
           timestamp = ascii ''2025-01-01T12:00:00Z'', saved = True\<rparr>,
      demo_world\<lparr>trace :=
        [ModelCall (ascii ''gemini-2.5-flash'') (build_prompt plain_request) 400,
         DbSet (ascii ''saved_sessions'') (ascii ''s1'')
           [(ascii ''session_id'', FStr (ascii ''s1'')),
            (ascii ''ciphertext'', FStr (ascii ''c1ph3r'')),
            (ascii ''created_at'', FStr (ascii ''2025-01-01T12:00:00Z'')),
            (ascii ''opt_in'', FBool True),
            (ascii ''snippet'', FStr (ascii '' That sounds tough, want to talk about it? ''))]],
        firestore := [(ascii ''saved_sessions'', ascii ''s1'') \<mapsto>
           [(ascii ''session_id'', FStr (ascii ''s1'')),
            (ascii ''ciphertext'', FStr (ascii ''c1ph3r'')),
            (ascii ''created_at'', FStr (ascii ''2025-01-01T12:00:00Z'')),
            (ascii ''opt_in'', FBool True),
            (ascii ''snippet'', FStr (ascii '' That sounds tough, want to talk about it? ''))]]\<rparr>)"
proof -
  have "\<not> contains_risk (unicode_lower demo_world) (message plain_request)"
    by (rule plain_request_no_risk)
  moreover have "resolve_session_id plain_request demo_world = (ascii ''s1'', demo_world)"
    by (simp add: resolve_session_id_def plain_request_def ascii_def)
  ultimately show ?thesis
    using demo_reply_text demo_reply_strip
    by (simp add: chat_def generate_branch_def save_doc_def reply_doc_def emit_def Let_def
        demo_world_def plain_request_def ascii_def)
qed

lemma chat_crisis_demo:
  "chat crisis_request demo_world =
     (Inr \<lparr>resp_session_id = ascii ''s1'', reply = crisis_reply,
           timestamp = ascii ''2025-01-01T12:00:00Z'', saved = True\<rparr>,
      demo_world\<lparr>trace :=
        [DbSet (ascii ''saved_sessions'') (ascii ''s1'')
           [(ascii ''session_id'', FStr (ascii ''s1'')),
            (ascii ''ciphertext'', FStr (ascii ''c1ph3r'')),
            (ascii ''created_at'', FStr (ascii ''2025-01-01T12:00:00Z'')),
            (ascii ''opt_in'', FBool True)]],
        firestore := [(ascii ''saved_sessions'', ascii ''s1'') \<mapsto>
           [(ascii ''session_id'', FStr (ascii ''s1'')),
            (ascii ''ciphertext'', FStr (ascii ''c1ph3r'')),
            (ascii ''created_at'', FStr (ascii ''2025-01-01T12:00:00Z'')),
            (ascii ''opt_in'', FBool True)]]\<rparr>)"
proof -
  have "contains_risk (unicode_lower demo_world) (message crisis_request)"
    by (rule crisis_request_risk_any)
  moreover have "resolve_session_id crisis_request demo_world = (ascii ''s1'', demo_world)"
    by (simp add: resolve_session_id_def crisis_request_def ascii_def)
  ultimately show ?thesis
    by (simp add: chat_def crisis_branch_def save_doc_def crisis_doc_def emit_def Let_def
        demo_world_def crisis_request_def ascii_def)
qed

theorem write_failure_never_fails_the_request_witness:
  "DbSet (ascii ''saved_sessions'') (ascii ''s1'')
           [(ascii ''session_id'', FStr (ascii ''s1'')),
            (ascii ''ciphertext'', FStr (ascii ''c1ph3r'')),
            (ascii ''created_at'', FStr (ascii ''2025-01-01T12:00:00Z'')),
            (ascii ''opt_in'', FBool True),
            (ascii ''snippet'', FStr (ascii '' That sounds tough, want to talk about it? ''))]
     \<in> set (emitted plain_request broken_store_world)
   \<and> (\<exists>resp. fst (chat plain_request broken_store_world) = Inr resp
          \<and> saved resp = (document_set broken_store_world (ascii ''saved_sessions'') (ascii ''s1'')
           [(ascii ''session_id'', FStr (ascii ''s1'')),
            (ascii ''ciphertext'', FStr (ascii ''c1ph3r'')),
            (ascii ''created_at'', FStr (ascii ''2025-01-01T12:00:00Z'')),
            (ascii ''opt_in'', FBool True),
            (ascii ''snippet'', FStr (ascii '' That sounds tough, want to talk about it? ''))] = None))
   \<and> document_set broken_store_world (ascii ''saved_sessions'') (ascii ''s1'')
           [(ascii ''session_id'', FStr (ascii ''s1'')),
            (ascii ''ciphertext'', FStr (ascii ''c1ph3r'')),
            (ascii ''created_at'', FStr (ascii ''2025-01-01T12:00:00Z'')),
            (ascii ''opt_in'', FBool True),
            (ascii ''snippet'', FStr (ascii '' That sounds tough, want to talk about it? ''))]
       = Some (ServiceError (ascii ''unavailable''))"
proof -
  have h: "DbSet (ascii ''saved_sessions'') (ascii ''s1'')
           [(ascii ''session_id'', FStr (ascii ''s1'')),
            (ascii ''ciphertext'', FStr (ascii ''c1ph3r'')),
            (ascii ''created_at'', FStr (ascii ''2025-01-01T12:00:00Z'')),
            (ascii ''opt_in'', FBool True),
            (ascii ''snippet'', FStr (ascii '' That sounds tough, want to talk about it? ''))]
     \<in> set (emitted plain_request broken_store_world)"
    by (simp add: emitted_def chat_plain_broken_store demo_worlds_trace)
  show ?thesis
    using h write_failure_never_fails_the_request [OF h]
    by (simp add: broken_store_world_def)
qed

theorem persisted_record_fields_witness:
  "DbSet (ascii ''saved_sessions'') (ascii ''s1'')
           [(ascii ''session_id'', FStr (ascii ''s1'')),
            (ascii ''ciphertext'', FStr (ascii ''c1ph3r'')),
            (ascii ''created_at'', FStr (ascii ''2025-01-01T12:00:00Z'')),
            (ascii ''opt_in'', FBool True),
            (ascii ''snippet'', FStr (ascii '' That sounds tough, want to talk about it? ''))]
     \<in> set (emitted plain_request demo_world)
   \<and> DbSet (ascii ''saved_sessions'') (ascii ''s1'')
           [(ascii ''session_id'', FStr (ascii ''s1'')),
            (ascii ''ciphertext'', FStr (ascii ''c1ph3r'')),
            (ascii ''created_at'', FStr (ascii ''2025-01-01T12:00:00Z'')),
            (ascii ''opt_in'', FBool True)]
     \<in> set (emitted crisis_request demo_world)
   \<and> (\<exists>resp c. fst (chat plain_request demo_world) = Inr resp
          \<and> save_opt_in_ciphertext plain_request = Some c
          \<and> ascii ''s1'' = resp_session_id resp
          \<and> firestore (snd (chat plain_request demo_world)) (ascii ''saved_sessions'', ascii ''s1'')
              = Some [(ascii ''session_id'', FStr (resp_session_id resp)),
                      (ascii ''ciphertext'', FStr c),
                      (ascii ''created_at'', FStr (timestamp resp)),
                      (ascii ''opt_in'', FBool True),
                      (ascii ''snippet'', FStr (ascii '' That sounds tough, want to talk about it? ''))])
   \<and> (\<exists>resp c. fst (chat crisis_request demo_world) = Inr resp
          \<and> save_opt_in_ciphertext crisis_request = Some c
          \<and> ascii ''s1'' = resp_session_id resp
          \<and> firestore (snd (chat crisis_request demo_world)) (ascii ''saved_sessions'', ascii ''s1'')
              = Some [(ascii ''session_id'', FStr (resp_session_id resp)),
                      (ascii ''ciphertext'', FStr c),
                      (ascii ''created_at'', FStr (timestamp resp)),
                      (ascii ''opt_in'', FBool True)])"
proof -
  have h1: "DbSet (ascii ''saved_sessions'') (ascii ''s1'')
           [(ascii ''session_id'', FStr (ascii ''s1'')),
            (ascii ''ciphertext'', FStr (ascii ''c1ph3r'')),
            (ascii ''created_at'', FStr (ascii ''2025-01-01T12:00:00Z'')),
            (ascii ''opt_in'', FBool True),
            (ascii ''snippet'', FStr (ascii '' That sounds tough, want to talk about it? ''))]
     \<in> set (emitted plain_request demo_world)"
    by (simp add: emitted_def chat_plain_demo demo_worlds_trace)
  have h2: "DbSet (ascii ''saved_sessions'') (ascii ''s1'')
           [(ascii ''session_id'', FStr (ascii ''s1'')),
            (ascii ''ciphertext'', FStr (ascii ''c1ph3r'')),
            (ascii ''created_at'', FStr (ascii ''2025-01-01T12:00:00Z'')),
            (ascii ''opt_in'', FBool True)]
     \<in> set (emitted crisis_request demo_world)"
    by (simp add: emitted_def chat_crisis_demo demo_worlds_trace)
  show ?thesis
    using h1 h2 persisted_record_fields [OF h1] persisted_record_fields [OF h2]
    by (simp add: chat_plain_demo chat_crisis_demo demo_requests_ciphertext)
qed

section \<open>Failure of the generation\<close>

text \<open>
  Ways in which line 102 raises on a response that the call of the model returned: the
  \<open>text\<close> property raises; or there is no usable direct text and \<open>candidates\<close> holds
  \<open>None\<close>, or is empty, or its first candidate has no \<open>content\<close>, or a \<open>content\<close> that
  cannot be subscripted, or a first segment without \<open>text\<close>.
\<close>

lemma extract_reply_text_raises:
  "text_attr r = Raises e \<Longrightarrow> e \<noteq> AttributeError \<Longrightarrow> extract_reply_text r = Inl e"
  "text_attr r = Has None \<Longrightarrow> candidates r = Has IsNone \<Longrightarrow> extract_reply_text r = Inl TypeError"
  "text_attr r = Has None \<Longrightarrow> candidates r = Has (Items []) \<Longrightarrow>
     extract_reply_text r = Inl IndexError"
  "text_attr r = Has None \<Longrightarrow> candidates r = Has (Items (c # cs)) \<Longrightarrow> content c = Missing \<Longrightarrow>
     extract_reply_text r = Inl AttributeError"
  "text_attr r = Has None \<Longrightarrow> candidates r = Has (Items (c # cs)) \<Longrightarrow>
     content c = Has Unsubscriptable \<Longrightarrow> extract_reply_text r = Inl TypeError"
  "text_attr r = Has None \<Longrightarrow> candidates r = Has (Items (c # cs)) \<Longrightarrow>
     content c = Has (Items (seg # segs)) \<Longrightarrow> segment_text seg = Missing \<Longrightarrow>
     extract_reply_text r = Inl AttributeError"
  by (simp_all add: line_102)


lemma bare_request_no_risk:
  "unicode_lower w = (\<lambda>before c rest. [c]) \<Longrightarrow>
     \<not> contains_risk (unicode_lower w) (message bare_request)"
  by (simp add: contains_risk_def py_lower_def bare_request_def ascii_def
      ascii_lower_def RISK_KEYWORDS_def)

lemma demo_worlds_lower:
  "unicode_lower demo_world = (\<lambda>before c rest. [c])"
  "unicode_lower empty_candidates_world = (\<lambda>before c rest. [c])"
  "unicode_lower blank_text_world = (\<lambda>before c rest. [c])"
  "unicode_lower none_segment_world = (\<lambda>before c rest. [c])"
  "unicode_lower candidate_world = (\<lambda>before c rest. [c])"
  "unicode_lower model_down_world = (\<lambda>before c rest. [c])"
  "unicode_lower none_candidates_world = (\<lambda>before c rest. [c])"
  by (simp_all add: demo_world_def empty_candidates_world_def blank_text_world_def
      none_segment_world_def candidate_world_def model_down_world_def none_candidates_world_def)


lemma resolve_bare:
  "uuid_source w = (\<lambda>n. ascii ''uuid-'' @ [48 + n]) \<Longrightarrow> uuid_count w = 0 \<Longrightarrow>
   resolve_session_id bare_request w = (ascii ''uuid-0'', w\<lparr>uuid_count := Suc 0\<rparr>)"
  by (simp add: resolve_session_id_def uuid4_def bare_request_def ascii_def)








section \<open>The reply text\<close>

lemma reply_of_extracted_text:
  assumes "\<not> contains_risk (unicode_lower w) (message req)"
    and "generate_content w (ascii ''gemini-2.5-flash'') (build_prompt req) 400 = Inr r"
    and "extract_reply_text r = Inr (Some t)"
  shows "\<exists>resp. fst (chat req w) = Inr resp \<and> reply resp = py_strip t"
proof (cases rule: chat_outcomes [of req w])
  case (crisis sid w1)
  with assms show ?thesis by simp
next
  case (crisis_write sid w1 c)
  with assms show ?thesis by simp
next
  case (failed sid w1 e)
  with assms show ?thesis by auto
next
  case (reply sid w1 r t)
  with assms show ?thesis by simp
next
  case (no_text sid w1 r)
  with assms show ?thesis by simp
next
  case (reply_write sid w1 r t c)
  with assms show ?thesis by simp
next
  case (no_text_opt_in sid w1 r c)
  with assms show ?thesis by simp
qed

text \<open>
  C7, as amended. When the message has no risk keyword and the call of the model returns
  a response, the reply text is read in this order: (a) the direct text of the response
  when it is present and not empty; else (b) when the candidates attribute is present,
  the text of the first content segment of the first candidate; else (c) \<open>str\<close> of the
  response. Whenever the text read is a string, the handler returns a response whose
  reply is that string with the surrounding whitespace removed.
\<close>

theorem reply_is_trimmed_extracted_text:
  assumes "\<not> contains_risk (unicode_lower w) (message req)"
    and "generate_content w (ascii ''gemini-2.5-flash'') (build_prompt req) 400 = Inr r"
  shows "(\<forall>t. text_attr r = Has (Some t) \<and> t \<noteq> []
             \<longrightarrow> (\<exists>resp. fst (chat req w) = Inr resp \<and> reply resp = py_strip t))
       \<and> ((text_attr r = Missing \<or> text_attr r = Raises AttributeError \<or> text_attr r = Has None
            \<or> text_attr r = Has (Some [])) \<longrightarrow>
            (\<forall>c cs seg segs t.
                candidates r = Has (Items (c # cs)) \<and> content c = Has (Items (seg # segs))
                \<and> segment_text seg = Has (Some t)
                \<longrightarrow> (\<exists>resp. fst (chat req w) = Inr resp \<and> reply resp = py_strip t))
          \<and> (candidates r = Missing \<or> candidates r = Raises AttributeError
                \<longrightarrow> (\<exists>resp. fst (chat req w) = Inr resp \<and> reply resp = py_strip (str_of r))))"
proof (intro conjI allI impI)
  fix t assume "text_attr r = Has (Some t) \<and> t \<noteq> []"
  then have "extract_reply_text r = Inr (Some t)"
    by (simp add: line_102)
  then show "\<exists>resp. fst (chat req w) = Inr resp \<and> reply resp = py_strip t"
    by (rule reply_of_extracted_text [OF assms])
next
  fix c cs seg segs t
  assume "text_attr r = Missing \<or> text_attr r = Raises AttributeError \<or> text_attr r = Has None
            \<or> text_attr r = Has (Some [])"
    and "candidates r = Has (Items (c # cs)) \<and> content c = Has (Items (seg # segs))
         \<and> segment_text seg = Has (Some t)"
  then have "extract_reply_text r = Inr (Some t)"
    by (auto simp: line_102)
  then show "\<exists>resp. fst (chat req w) = Inr resp \<and> reply resp = py_strip t"
    by (rule reply_of_extracted_text [OF assms])
next
  assume "text_attr r = Missing \<or> text_attr r = Raises AttributeError \<or> text_attr r = Has None
            \<or> text_attr r = Has (Some [])"
    and "candidates r = Missing \<or> candidates r = Raises AttributeError"
  then have "extract_reply_text r = Inr (Some (str_of r))"
    by (auto simp: line_102)
  then show "\<exists>resp. fst (chat req w) = Inr resp \<and> reply resp = py_strip (str_of r)"
    by (rule reply_of_extracted_text [OF assms])
qed

lemma chat_bare_blank_text:
  "fst (chat bare_request blank_text_world)
     = Inr \<lparr>resp_session_id = ascii ''uuid-0'', reply = ascii ''<response>'',
            timestamp = ascii ''2025-01-01T12:00:00Z'', saved = False\<rparr>"
proof -
  have r: "resolve_session_id bare_request blank_text_world
           = (ascii ''uuid-0'', blank_text_world\<lparr>uuid_count := Suc 0\<rparr>)"
    by (rule resolve_bare) (simp_all add: blank_text_world_def demo_world_def)
  have e: "extract_reply_text blank_text_response = Inr (Some (ascii ''<response>''))"
    by (simp add: line_102 blank_text_response_def)
  have g: "generate_content blank_text_world = (\<lambda>model contents max_output_tokens. Inr blank_text_response)"
    by (simp add: blank_text_world_def)
  have c: "save_opt_in_ciphertext bare_request = None"
    by (simp add: bare_request_def)
  have s: "py_strip (ascii ''<response>'') = ascii ''<response>''"
    by (simp add: py_strip_def py_isspace_def ascii_def)
  have n: "utcnow_isoformat blank_text_world @ ascii ''Z'' = ascii ''2025-01-01T12:00:00Z''"
    by (simp add: blank_text_world_def demo_world_def ascii_def)
  show ?thesis
    using bare_request_no_risk [OF demo_worlds_lower(3)] n
    by (simp add: chat_def r generate_branch_def Let_def e g c s)
qed

text \<open>
  C7 as stated fails: the response has a direct text, the empty string, and no candidates
  attribute; the reply is not that text trimmed (the empty string) but \<open>str\<close> of the
  response.
\<close>

theorem reply_extraction_counterexample:
  "generate_content blank_text_world (ascii ''gemini-2.5-flash'') (build_prompt bare_request) 400
     = Inr blank_text_response
   \<and> text_attr blank_text_response = Has (Some [])
   \<and> fst (chat bare_request blank_text_world)
       = Inr \<lparr>resp_session_id = ascii ''uuid-0'', reply = ascii ''<response>'',
              timestamp = ascii ''2025-01-01T12:00:00Z'', saved = False\<rparr>
   \<and> ascii ''<response>'' \<noteq> py_strip []"
proof -
  have "generate_content blank_text_world (ascii ''gemini-2.5-flash'') (build_prompt bare_request) 400
     = Inr blank_text_response"
    by (simp add: blank_text_world_def)
  moreover have "text_attr blank_text_response = Has (Some [])"
    by (simp add: blank_text_response_def)
  moreover have "ascii ''<response>'' \<noteq> py_strip []"
    by (simp add: py_strip_def ascii_def)
  ultimately show ?thesis
    using chat_bare_blank_text by simp
qed

theorem reply_is_trimmed_extracted_text_witness:
  "\<not> contains_risk (unicode_lower demo_world) (message plain_request)
   \<and> generate_content demo_world (ascii ''gemini-2.5-flash'') (build_prompt plain_request) 400
       = Inr demo_response
   \<and> text_attr demo_response = Has (Some (ascii '' That sounds tough, want to talk about it? ''))
   \<and> (\<exists>resp. fst (chat plain_request demo_world) = Inr resp
          \<and> reply resp = ascii ''That sounds tough, want to talk about it?'')
   \<and> \<not> contains_risk (unicode_lower candidate_world) (message bare_request)
   \<and> generate_content candidate_world (ascii ''gemini-2.5-flash'') (build_prompt bare_request) 400
       = Inr candidate_response
   \<and> text_attr candidate_response = Missing
   \<and> candidates candidate_response
       = Has (Items [\<lparr>content = Has (Items [\<lparr>segment_text = Has (Some (ascii ''Take a slow breath. ''))\<rparr>])\<rparr>])
   \<and> (\<exists>resp. fst (chat bare_request candidate_world) = Inr resp
          \<and> reply resp = ascii ''Take a slow breath.'')
   \<and> \<not> contains_risk (unicode_lower blank_text_world) (message bare_request)
   \<and> generate_content blank_text_world (ascii ''gemini-2.5-flash'') (build_prompt bare_request) 400
       = Inr blank_text_response
   \<and> text_attr blank_text_response = Has (Some [])
   \<and> candidates blank_text_response = Missing
   \<and> (\<exists>resp. fst (chat bare_request blank_text_world) = Inr resp
          \<and> reply resp = ascii ''<response>'')"
proof -
  have a1: "\<not> contains_risk (unicode_lower demo_world) (message plain_request)"
    by (rule plain_request_no_risk)
  have a2: "generate_content demo_world (ascii ''gemini-2.5-flash'') (build_prompt plain_request) 400
       = Inr demo_response"
    by (simp add: demo_world_def)
  have a3: "text_attr demo_response = Has (Some (ascii '' That sounds tough, want to talk about it? ''))"
    by (simp add: demo_response_def)
  have a4: "ascii '' That sounds tough, want to talk about it? '' \<noteq> []"
    by (simp add: ascii_def)
  have a: "\<exists>resp. fst (chat plain_request demo_world) = Inr resp
          \<and> reply resp = ascii ''That sounds tough, want to talk about it?''"
    using reply_is_trimmed_extracted_text [OF a1 a2] a3 a4 demo_reply_strip by metis
  have b1: "\<not> contains_risk (unicode_lower candidate_world) (message bare_request)"
    by (rule bare_request_no_risk) (rule demo_worlds_lower)
  have b2: "generate_content candidate_world (ascii ''gemini-2.5-flash'') (build_prompt bare_request) 400
       = Inr candidate_response"
    by (simp add: candidate_world_def)
  have b3: "text_attr candidate_response = Missing"
    by (simp add: candidate_response_def)
  have b4: "candidates candidate_response
       = Has (Items [\<lparr>content = Has (Items [\<lparr>segment_text = Has (Some (ascii ''Take a slow breath. ''))\<rparr>])\<rparr>])"
    by (simp add: candidate_response_def)
  have b5: "py_strip (ascii ''Take a slow breath. '') = ascii ''Take a slow breath.''"
    by (simp add: py_strip_def py_isspace_def ascii_def)
  have "content \<lparr>content = Has (Items [\<lparr>segment_text = Has (Some (ascii ''Take a slow breath. ''))\<rparr>])\<rparr>
          = Has (Items [\<lparr>segment_text = Has (Some (ascii ''Take a slow breath. ''))\<rparr>])"
       "segment_text \<lparr>segment_text = Has (Some (ascii ''Take a slow breath. ''))\<rparr>
          = Has (Some (ascii ''Take a slow breath. ''))"
    by simp_all
  then have b: "\<exists>resp. fst (chat bare_request candidate_world) = Inr resp
          \<and> reply resp = ascii ''Take a slow breath.''"
    using reply_is_trimmed_extracted_text [OF b1 b2] b3 b4 b5 by metis
  have c1: "\<not> contains_risk (unicode_lower blank_text_world) (message bare_request)"
    by (rule bare_request_no_risk) (rule demo_worlds_lower)
  have c2: "generate_content blank_text_world (ascii ''gemini-2.5-flash'') (build_prompt bare_request) 400
       = Inr blank_text_response"
    by (simp add: blank_text_world_def)
  have c3: "text_attr blank_text_response = Has (Some [])" "candidates blank_text_response = Missing"
    "str_of blank_text_response = ascii ''<response>''"
    by (simp_all add: blank_text_response_def)
  have c5: "py_strip (ascii ''<response>'') = ascii ''<response>''"
    by (simp add: py_strip_def py_isspace_def ascii_def)
  have c: "\<exists>resp. fst (chat bare_request blank_text_world) = Inr resp
          \<and> reply resp = ascii ''<response>''"
    using reply_is_trimmed_extracted_text [OF c1 c2] c3 c5 by metis
  from a1 a2 a3 a b1 b2 b3 b4 b c1 c2 c3(1,2) c show ?thesis by blast
qed

section \<open>The session id\<close>

lemma resolve_supplied:
  "session_id req = Some sid \<Longrightarrow> sid \<noteq> [] \<Longrightarrow> resolve_session_id req w = (sid, w)"
  by (simp add: resolve_session_id_def)

lemma resolve_fresh:
  "session_id req = None \<or> session_id req = Some [] \<Longrightarrow>
     resolve_session_id req w
       = (uuid_source w (uuid_count w), w\<lparr>uuid_count := Suc (uuid_count w)\<rparr>)"
  by (auto simp: resolve_session_id_def uuid4_def)

lemma resolve_count_mono: "uuid_count w \<le> uuid_count (snd (resolve_session_id req w))"
  by (auto simp: resolve_session_id_def uuid4_def split: option.splits)

lemma chat_generator:
  "uuid_source (snd (chat req w)) = uuid_source w
   \<and> uuid_count (snd (chat req w)) = uuid_count (snd (resolve_session_id req w))"
proof (cases rule: chat_outcomes [of req w])
  case (crisis sid w1)
  then show ?thesis using resolve_frame [OF crisis(1)] by simp
next
  case (crisis_write sid w1 c)
  then show ?thesis using resolve_frame [OF crisis_write(1)] by (simp add: save_doc_eq)
next
  case (failed sid w1 e)
  then show ?thesis using resolve_frame [OF failed(1)] by simp
next
  case (reply sid w1 r t)
  then show ?thesis using resolve_frame [OF reply(1)] by simp
next
  case (no_text sid w1 r)
  then show ?thesis using resolve_frame [OF no_text(1)] by simp
next
  case (reply_write sid w1 r t c)
  then show ?thesis using resolve_frame [OF reply_write(1)] by (simp add: save_doc_eq)
next
  case (no_text_opt_in sid w1 r c)
  then show ?thesis using resolve_frame [OF no_text_opt_in(1)] by simp
qed

lemma chat_session_id:
  "fst (chat req w) = Inr resp \<Longrightarrow> resp_session_id resp = fst (resolve_session_id req w)"
  by (cases rule: chat_outcomes [of req w]) auto

lemma serve_all_generator:
  "uuid_source (serve_all reqs w) = uuid_source w \<and> uuid_count w \<le> uuid_count (serve_all reqs w)"
proof (induction reqs arbitrary: w)
  case Nil
  then show ?case by (simp add: serve_all_def)
next
  case (Cons r reqs)
  have "serve_all (r # reqs) w = serve_all reqs (snd (chat r w))"
    by (simp add: serve_all_def)
  moreover have "uuid_count w \<le> uuid_count (snd (chat r w))"
    using chat_generator [of r w] resolve_count_mono [of w r] by simp
  ultimately show ?case
    using Cons.IH [of "snd (chat r w)"] chat_generator [of r w] by simp
qed

text \<open>
  C8. A response to a request that supplies a non-empty session id carries that id as it
  came. A response to a request without a session id, or with an empty one, carries the
  next identifier of the generator; and when the generator never repeats an identifier,
  the responses to two such requests, the second served after the first and after any
  sequence of calls in between, carry different ids.
\<close>

theorem session_id_round_trip:
  "(session_id req = Some sid \<and> sid \<noteq> [] \<and> fst (chat req w) = Inr resp
      \<longrightarrow> resp_session_id resp = sid)
   \<and> ((session_id req = None \<or> session_id req = Some []) \<and> fst (chat req w) = Inr resp
      \<longrightarrow> resp_session_id resp = uuid_source w (uuid_count w))
   \<and> ((session_id req = None \<or> session_id req = Some [])
       \<and> (session_id req' = None \<or> session_id req' = Some [])
       \<and> inj (uuid_source w)
       \<and> fst (chat req w) = Inr resp
       \<and> fst (chat req' (serve_all between (snd (chat req w)))) = Inr resp'
      \<longrightarrow> resp_session_id resp' \<noteq> resp_session_id resp)"
proof (intro conjI impI)
  assume "session_id req = Some sid \<and> sid \<noteq> [] \<and> fst (chat req w) = Inr resp"
  then show "resp_session_id resp = sid"
    using chat_session_id [of req w resp] by (simp add: resolve_supplied)
next
  assume "(session_id req = None \<or> session_id req = Some []) \<and> fst (chat req w) = Inr resp"
  then show "resp_session_id resp = uuid_source w (uuid_count w)"
    using chat_session_id [of req w resp] by (simp add: resolve_fresh)
next
  let ?w1 = "snd (chat req w)"
  let ?w2 = "serve_all between ?w1"
  assume a: "(session_id req = None \<or> session_id req = Some [])
       \<and> (session_id req' = None \<or> session_id req' = Some [])
       \<and> inj (uuid_source w)
       \<and> fst (chat req w) = Inr resp
       \<and> fst (chat req' ?w2) = Inr resp'"
  then have first: "resp_session_id resp = uuid_source w (uuid_count w)"
    using chat_session_id [of req w resp] by (simp add: resolve_fresh)
  have "uuid_count ?w1 = Suc (uuid_count w)" "uuid_source ?w1 = uuid_source w"
    using a chat_generator [of req w] by (simp_all add: resolve_fresh)
  then have later: "uuid_source ?w2 = uuid_source w" "uuid_count w < uuid_count ?w2"
    using serve_all_generator [of between ?w1] by simp_all
  have "resp_session_id resp' = uuid_source ?w2 (uuid_count ?w2)"
    using a chat_session_id [of req' ?w2 resp'] by (simp add: resolve_fresh)
  with later first a show "resp_session_id resp' \<noteq> resp_session_id resp"
    by (auto dest: injD)
qed

lemma chat_frame:
  "unicode_lower (snd (chat req w)) = unicode_lower w
   \<and> utcnow_isoformat (snd (chat req w)) = utcnow_isoformat w
   \<and> generate_content (snd (chat req w)) = generate_content w
   \<and> document_set (snd (chat req w)) = document_set w
   \<and> save_enabled (snd (chat req w)) = save_enabled w"
proof (cases rule: chat_outcomes [of req w])
  case (crisis sid w1)
  then show ?thesis using resolve_frame [OF crisis(1)] by simp
next
  case (crisis_write sid w1 c)
  then show ?thesis using resolve_frame [OF crisis_write(1)] by (simp add: save_doc_eq)
next
  case (failed sid w1 e)
  then show ?thesis using resolve_frame [OF failed(1)] by simp
next
  case (reply sid w1 r t)
  then show ?thesis using resolve_frame [OF reply(1)] by simp
next
  case (no_text sid w1 r)
  then show ?thesis using resolve_frame [OF no_text(1)] by simp
next
  case (reply_write sid w1 r t c)
  then show ?thesis using resolve_frame [OF reply_write(1)] by (simp add: save_doc_eq)
next
  case (no_text_opt_in sid w1 r c)
  then show ?thesis using resolve_frame [OF no_text_opt_in(1)] by simp
qed

lemma chat_bare_reply:
  assumes "unicode_lower w = (\<lambda>before c rest. [c])"
    and "generate_content w = (\<lambda>model contents max_output_tokens. Inr demo_response)"
  shows "\<exists>resp. fst (chat bare_request w) = Inr resp"
proof -
  have "\<not> contains_risk (unicode_lower w) (message bare_request)"
    by (rule bare_request_no_risk) (rule assms)
  moreover have "generate_content w (ascii ''gemini-2.5-flash'') (build_prompt bare_request) 400
                 = Inr demo_response"
    by (simp add: assms)
  ultimately show ?thesis
    using reply_of_extracted_text [OF _ _ demo_reply_text] by blast
qed

theorem session_id_round_trip_witness:
  "session_id plain_request = Some (ascii ''s1'') \<and> ascii ''s1'' \<noteq> []
   \<and> (\<exists>resp. fst (chat plain_request demo_world) = Inr resp
          \<and> resp_session_id resp = ascii ''s1'')
   \<and> session_id bare_request = None
   \<and> inj (uuid_source demo_world)
   \<and> (\<exists>resp resp'.
          fst (chat bare_request demo_world) = Inr resp
        \<and> fst (chat bare_request (serve_all [plain_request] (snd (chat bare_request demo_world))))
            = Inr resp'
        \<and> resp_session_id resp = ascii ''uuid-0''
        \<and> resp_session_id resp' \<noteq> resp_session_id resp)"
proof -
  let ?w1 = "snd (chat bare_request demo_world)"
  let ?w2 = "serve_all [plain_request] ?w1"
  have s1: "session_id plain_request = Some (ascii ''s1'')" "ascii ''s1'' \<noteq> []"
    by (simp_all add: plain_request_def ascii_def)
  have p: "fst (chat plain_request demo_world) =
     Inr \<lparr>resp_session_id = ascii ''s1'',
           reply = ascii ''That sounds tough, want to talk about it?'',
           timestamp = ascii ''2025-01-01T12:00:00Z'', saved = True\<rparr>"
    by (simp add: chat_plain_demo)
  have a: "\<exists>resp. fst (chat plain_request demo_world) = Inr resp
          \<and> resp_session_id resp = ascii ''s1''"
    using session_id_round_trip
      [of plain_request "ascii ''s1''" demo_world _ plain_request "[]", THEN conjunct1] s1 p
    by blast
  have n: "session_id bare_request = None"
    by (simp add: bare_request_def)
  have i: "inj (uuid_source demo_world)"
    by (simp add: demo_world_def inj_def)
  have g: "generate_content demo_world = (\<lambda>model contents max_output_tokens. Inr demo_response)"
    by (simp add: demo_world_def)
  obtain resp where r: "fst (chat bare_request demo_world) = Inr resp"
    using chat_bare_reply [OF demo_worlds_lower(1) g] by blast
  have "unicode_lower ?w2 = (\<lambda>before c rest. [c])"
       "generate_content ?w2 = (\<lambda>model contents max_output_tokens. Inr demo_response)"
    using chat_frame [of plain_request ?w1] chat_frame [of bare_request demo_world]
      demo_worlds_lower(1) g
    by (simp_all add: serve_all_def)
  then obtain resp' where r': "fst (chat bare_request ?w2) = Inr resp'"
    using chat_bare_reply by blast
  note T = session_id_round_trip
      [of bare_request "[]" demo_world resp bare_request "[plain_request]" resp']
  have "resp_session_id resp = uuid_source demo_world (uuid_count demo_world)"
    using T [THEN conjunct2, THEN conjunct1] n r by blast
  then have u: "resp_session_id resp = ascii ''uuid-0''"
    by (simp add: demo_world_def ascii_def)
  have "resp_session_id resp' \<noteq> resp_session_id resp"
    using T [THEN conjunct2, THEN conjunct2] n i r r' by blast
  with s1 a n i r r' u show ?thesis by blast
qed

end
